theory Spec2Isabelle
  imports Main "HOL-Library.Sublist"
begin

section \<open>Text and the pattern matcher of the host language\<close>

text \<open>
  The analyser of \<^verbatim>\<open>src/index.ts\<close> works on JavaScript strings with regular expressions.
  Text is modelled as \<^typ>\<open>string\<close>, a list of 8-bit code units: source text and language
  labels range over the code units below 256. The four box-drawing glyphs that the diagram
  renderer prints lie outside that range and are written as their UTF-8 byte sequences.

  The built-in matcher is modelled for the fragment the program uses: literals, character
  classes, sequence, alternation, the greedy quantifiers \<^verbatim>\<open>?\<close>, \<^verbatim>\<open>*\<close>, \<^verbatim>\<open>+\<close>, the lazy
  \<^verbatim>\<open>*?\<close>, capturing groups and the flags \<^verbatim>\<open>i\<close> and \<^verbatim>\<open>g\<close>. A match attempt at one
  position yields every way to match, in the order in which a backtracking matcher tries
  them; the head of that list is the match the host language reports.
\<close>

definition isWordChar :: "char \<Rightarrow> bool" where
  "isWordChar ch = (ch \<in> set ''abcdefghijklmnopqrstuvwxyzABCDEFGHIJKLMNOPQRSTUVWXYZ0123456789_'')"

definition isSpaceChar :: "char \<Rightarrow> bool" where
  "isSpaceChar ch = (ch \<in> set [CHR 0x09, CHR 0x0A, CHR 0x0B, CHR 0x0C, CHR 0x0D, CHR 0x20, CHR 0xA0])"

text \<open>
  The upper case of the letters a to z; every other code unit is left as it is. Under the
  flag \<^verbatim>\<open>i\<close> two code units match when their upper cases are equal; the patterns of
  the program hold no letter outside a to z, and no code unit from 128 on has an upper case
  below 128.
\<close>

definition upperAZ :: "char \<Rightarrow> char" where
  "upperAZ ch =
     (case map_of (zip ''abcdefghijklmnopqrstuvwxyz'' ''ABCDEFGHIJKLMNOPQRSTUVWXYZ'') ch of
        None \<Rightarrow> ch
      | Some u \<Rightarrow> u)"

text \<open>
  Character classes: \<^verbatim>\<open>\w\<close>, \<^verbatim>\<open>\s\<close>, \<^verbatim>\<open>[^]\<close> (any code unit), a positive set
  \<^verbatim>\<open>[...]\<close> and a negated set \<^verbatim>\<open>[^...]\<close>.
\<close>

datatype cclass = Word | Space | AnyChar | OneOf string | NoneOf string

fun inClass :: "cclass \<Rightarrow> char \<Rightarrow> bool" where
  "inClass Word ch = isWordChar ch"
| "inClass Space ch = isSpaceChar ch"
| "inClass AnyChar ch = True"
| "inClass (OneOf cs) ch = (ch \<in> set cs)"
| "inClass (NoneOf cs) ch = (ch \<notin> set cs)"

datatype re =
    Eps
  | Chr char
  | Cls cclass
  | Seq re re
  | Alt re re
  | Opt re
  | Star re
  | LazyStar re
  | Group nat re

abbreviation Plus :: "re \<Rightarrow> re" where
  "Plus r \<equiv> Seq r (Star r)"

fun seqs :: "re list \<Rightarrow> re" where
  "seqs [] = Eps"
| "seqs [r] = r"
| "seqs (r # rs) = Seq r (seqs rs)"

fun alts :: "re list \<Rightarrow> re" where
  "alts [] = Eps"
| "alts [r] = r"
| "alts (r # rs) = Alt r (alts rs)"

definition str :: "string \<Rightarrow> re" where
  "str cs = seqs (map Chr cs)"

text \<open>Captures: the latest binding of a group number is the first one in the list.\<close>

type_synonym caps = "(nat \<times> string) list"

definition capture :: "caps \<Rightarrow> nat \<Rightarrow> string option" where
  "capture c n = map_of c n"

fun groupsOf :: "re \<Rightarrow> nat list" where
  "groupsOf Eps = []"
| "groupsOf (Chr a) = []"
| "groupsOf (Cls k) = []"
| "groupsOf (Seq r1 r2) = groupsOf r1 @ groupsOf r2"
| "groupsOf (Alt r1 r2) = groupsOf r1 @ groupsOf r2"
| "groupsOf (Opt r) = groupsOf r"
| "groupsOf (Star r) = groupsOf r"
| "groupsOf (LazyStar r) = groupsOf r"
| "groupsOf (Group n r) = n # groupsOf r"

definition clear :: "re \<Rightarrow> caps \<Rightarrow> caps" where
  "clear r c = filter (\<lambda>b. fst b \<notin> set (groupsOf r)) c"

definition chrEq :: "bool \<Rightarrow> char \<Rightarrow> char \<Rightarrow> bool" where
  "chrEq ic a x = (if ic then upperAZ a = upperAZ x else a = x)"

text \<open>
  \<open>rmatch ic r s c\<close>: all ways to match \<open>r\<close> at the start of \<open>s\<close> with captures \<open>c\<close>, each
  given by the text left over and the captures, best first. A quantifier clears the
  captures of its body before an iteration and rejects an iteration that consumed nothing,
  as the host language does.
\<close>

fun rmatch :: "bool \<Rightarrow> re \<Rightarrow> string \<Rightarrow> caps \<Rightarrow> (string \<times> caps) list" where
  "rmatch ic Eps s c = [(s, c)]"
| "rmatch ic (Chr a) s c =
     (case s of [] \<Rightarrow> [] | x # xs \<Rightarrow> if chrEq ic a x then [(xs, c)] else [])"
| "rmatch ic (Cls k) s c =
     (case s of [] \<Rightarrow> [] | x # xs \<Rightarrow> if inClass k x then [(xs, c)] else [])"
| "rmatch ic (Seq r1 r2) s c =
     concat (map (\<lambda>p. rmatch ic r2 (fst p) (snd p)) (rmatch ic r1 s c))"
| "rmatch ic (Alt r1 r2) s c = rmatch ic r1 s c @ rmatch ic r2 s c"
| "rmatch ic (Opt r) s c =
     filter (\<lambda>p. length (fst p) < length s) (rmatch ic r s (clear r c)) @ [(s, c)]"
| "rmatch ic (Star r) s c =
     concat (map (\<lambda>p. if length (fst p) < length s then rmatch ic (Star r) (fst p) (snd p) else [])
                 (rmatch ic r s (clear r c))) @ [(s, c)]"
| "rmatch ic (LazyStar r) s c =
     (s, c) # concat (map (\<lambda>p. if length (fst p) < length s
                                 then rmatch ic (LazyStar r) (fst p) (snd p) else [])
                          (rmatch ic r s (clear r c)))"
| "rmatch ic (Group n r) s c =
     map (\<lambda>p. (fst p, (n, take (length s - length (fst p)) s) # snd p)) (rmatch ic r s c)"

text \<open>
  A match as \<^verbatim>\<open>exec\<close> reports it: the offset \<open>index\<close> of its start, the matched text
  (\<^verbatim>\<open>match[0]\<close>) and the captures (\<^verbatim>\<open>match[n]\<close> is \<open>capture (groups m) n\<close>, \<open>None\<close> for
  \<^verbatim>\<open>undefined\<close>).
\<close>

record rematch =
  index :: nat
  matched :: string
  groups :: caps

text \<open>A pattern with its flags \<^verbatim>\<open>i\<close> (ignore case); \<^verbatim>\<open>g\<close> is the way it is run.\<close>

record regexp =
  ignoreCase :: bool
  expr :: re

definition rx :: "re \<Rightarrow> regexp" where
  "rx r = \<lparr>ignoreCase = False, expr = r\<rparr>"

definition rxi :: "re \<Rightarrow> regexp" where
  "rxi r = \<lparr>ignoreCase = True, expr = r\<rparr>"

text \<open>\<open>search p s pos\<close>: the leftmost match in the suffix \<open>s\<close> that begins at offset \<open>pos\<close>.\<close>

fun search :: "regexp \<Rightarrow> string \<Rightarrow> nat \<Rightarrow> rematch option" where
  "search p [] pos =
     (case rmatch (ignoreCase p) (expr p) [] [] of
        [] \<Rightarrow> None
      | q # _ \<Rightarrow> Some \<lparr>index = pos, matched = [], groups = snd q\<rparr>)"
| "search p (x # xs) pos =
     (case rmatch (ignoreCase p) (expr p) (x # xs) [] of
        [] \<Rightarrow> search p xs (Suc pos)
      | q # _ \<Rightarrow> Some \<lparr>index = pos,
                       matched = take (length (x # xs) - length (fst q)) (x # xs),
                       groups = snd q\<rparr>)"

text \<open>
  \<^verbatim>\<open>re.exec(s)\<close> of a global pattern whose \<^verbatim>\<open>lastIndex\<close> is \<open>i\<close>: the search starts at
  \<open>i\<close> and fails beyond the end of the text.
\<close>

definition exec :: "regexp \<Rightarrow> string \<Rightarrow> nat \<Rightarrow> rematch option" where
  "exec p s i = (if length s < i then None else search p (drop i s) i)"

text \<open>\<^verbatim>\<open>s.match(re)\<close> of a pattern without \<^verbatim>\<open>g\<close>, and \<^verbatim>\<open>re.test(s)\<close>.\<close>

definition match1 :: "regexp \<Rightarrow> string \<Rightarrow> rematch option" where
  "match1 p s = search p s 0"

definition test :: "regexp \<Rightarrow> string \<Rightarrow> bool" where
  "test p s = (search p s 0 \<noteq> None)"

text \<open>
  What can go wrong in a call: a property read on \<^verbatim>\<open>undefined\<close> raises a TypeError, and
  the loop \<^verbatim>\<open>while ((m = re.exec(s)) !== null)\<close> never ends once a match is empty, since
  \<^verbatim>\<open>lastIndex\<close> then stays where it is.
\<close>

datatype error = TypeError | Diverges

text \<open>
  The loop \<^verbatim>\<open>while ((m = re.exec(s)) !== null) { body }\<close> started with
  \<^verbatim>\<open>lastIndex = i\<close>. \<open>body m acc\<close> is one pass for the match \<open>m\<close> on the state \<open>acc\<close> of
  the loop, and may raise. After a match \<^verbatim>\<open>lastIndex\<close> is the end of the match, so the
  loop comes back to an empty match at \<^verbatim>\<open>lastIndex\<close> for ever: \<open>Inl Diverges\<close>.
\<close>

function execFold ::
  "regexp \<Rightarrow> string \<Rightarrow> (rematch \<Rightarrow> 'a \<Rightarrow> error + 'a) \<Rightarrow> nat \<Rightarrow> 'a \<Rightarrow> error + 'a" where
  "execFold p s body i acc =
     (case exec p s i of
        None \<Rightarrow> Inr acc
      | Some m \<Rightarrow>
          (case body m acc of
             Inl e \<Rightarrow> Inl e
           | Inr acc' \<Rightarrow>
               if i < index m + length (matched m)
               then execFold p s body (index m + length (matched m)) acc'
               else Inl Diverges))"
  by pat_completeness auto
termination
proof (relation "measure (\<lambda>(p, s, body, i, acc). Suc (length s) - i)")
  show "wf (measure (\<lambda>(p, s, body, i, acc). Suc (length s) - i))" by simp
next
  fix p :: regexp and s :: string and body :: "rematch \<Rightarrow> 'a \<Rightarrow> error + 'a"
    and i :: nat and acc acc' :: 'a and m :: rematch
  assume "exec p s i = Some m" and "i < index m + length (matched m)"
  then have "i \<le> length s"
    by (auto simp: exec_def split: if_splits)
  with \<open>i < index m + length (matched m)\<close>
  show "((p, s, body, index m + length (matched m), acc'), (p, s, body, i, acc))
          \<in> measure (\<lambda>(p, s, body, i, acc). Suc (length s) - i)"
    by simp
qed

text \<open>
  \<^verbatim>\<open>s.replace(re, f)\<close> with a global pattern: every match, left to right, is replaced by
  \<open>f\<close> of the matched text; after an empty match the scan moves on by one code unit.
\<close>

fun replaceAll :: "regexp \<Rightarrow> (string \<Rightarrow> string) \<Rightarrow> string \<Rightarrow> string" where
  "replaceAll p f s =
     (case rmatch (ignoreCase p) (expr p) s [] of
        [] \<Rightarrow> (case s of [] \<Rightarrow> [] | x # xs \<Rightarrow> x # replaceAll p f xs)
      | q # _ \<Rightarrow>
          if length (fst q) < length s
          then f (take (length s - length (fst q)) s) @ replaceAll p f (fst q)
          else f [] @ (case s of [] \<Rightarrow> [] | x # xs \<Rightarrow> x # replaceAll p f xs))"

text \<open>\<^verbatim>\<open>s.includes(t)\<close>, \<^verbatim>\<open>s.indexOf(ch, i)\<close>, \<^verbatim>\<open>s.substring(i, j)\<close>, \<^verbatim>\<open>s.trim()\<close>.\<close>

fun includesStr :: "string \<Rightarrow> string \<Rightarrow> bool" where
  "includesStr [] t = (t = [])"
| "includesStr (x # xs) t = (if take (length t) (x # xs) = t then True else includesStr xs t)"

fun indexFrom :: "char \<Rightarrow> string \<Rightarrow> nat \<Rightarrow> nat option" where
  "indexFrom ch [] pos = None"
| "indexFrom ch (x # xs) pos = (if x = ch then Some pos else indexFrom ch xs (Suc pos))"

definition indexOf :: "string \<Rightarrow> char \<Rightarrow> nat \<Rightarrow> nat option" where
  "indexOf s ch i = indexFrom ch (drop i s) i"

definition substring :: "string \<Rightarrow> nat \<Rightarrow> nat \<Rightarrow> string" where
  "substring s i j = (if i \<le> j then take (j - i) (drop i s) else take (i - j) (drop j s))"

definition trim :: "string \<Rightarrow> string" where
  "trim s = rev (dropWhile isSpaceChar (rev (dropWhile isSpaceChar s)))"

section \<open>Block extraction\<close>

text \<open>
  \<^verbatim>\<open>extractBlock(code, startIndex)\<close>. The callers pass the offset of a match, a natural
  number. \<open>scanBraces\<close> is the \<^verbatim>\<open>while\<close> loop: it returns \<^verbatim>\<open>currentIndex\<close> at its exit.
\<close>

fun scanBraces :: "string \<Rightarrow> nat \<Rightarrow> nat \<Rightarrow> nat" where
  "scanBraces [] braceCount currentIndex = currentIndex"
| "scanBraces (x # xs) braceCount currentIndex =
     (if braceCount > 0
      then scanBraces xs
             (if x = CHR ''{'' then braceCount + 1
              else if x = CHR ''}'' then braceCount - 1
              else braceCount)
             (currentIndex + 1)
      else currentIndex)"

definition extractBlock :: "string \<Rightarrow> nat \<Rightarrow> string" where
  "extractBlock code startIndex =
     (case indexOf code CHR ''{'' startIndex of
        None \<Rightarrow> []
      | Some openingBraceIndex \<Rightarrow>
          substring code startIndex
            (scanBraces (drop (openingBraceIndex + 1) code) 1 (openingBraceIndex + 1)))"

section \<open>Values of the host language\<close>

text \<open>
  A value that is a string, \<^verbatim>\<open>undefined\<close> or \<^verbatim>\<open>null\<close> is a \<^typ>\<open>string option\<close>.
  \<open>truthy\<close> is its truth value, \<open>jsOr\<close> the operator \<^verbatim>\<open>||\<close>, \<open>orElse\<close> the operator
  \<^verbatim>\<open>||\<close> with a string literal on the right, \<open>strictEq\<close> the comparison \<^verbatim>\<open>===\<close> of a
  string-or-null with a string-or-undefined, and \<open>tmpl\<close> the text a template literal
  prints for the value.
\<close>

definition truthy :: "string option \<Rightarrow> bool" where
  "truthy v = (case v of None \<Rightarrow> False | Some s \<Rightarrow> s \<noteq> [])"

definition jsOr :: "string option \<Rightarrow> string option \<Rightarrow> string option" where
  "jsOr a b = (if truthy a then a else b)"

definition orElse :: "string option \<Rightarrow> string \<Rightarrow> string" where
  "orElse a d = (case a of None \<Rightarrow> d | Some s \<Rightarrow> if s \<noteq> [] then s else d)"

definition orNull :: "string option \<Rightarrow> string option" where
  "orNull a = (if truthy a then a else None)"

definition strictEq :: "string option \<Rightarrow> string option \<Rightarrow> bool" where
  "strictEq a b = (a \<noteq> None \<and> a = b)"

definition tmpl :: "string option \<Rightarrow> string" where
  "tmpl v = (case v of None \<Rightarrow> ''undefined'' | Some s \<Rightarrow> s)"

definition padEnd :: "string \<Rightarrow> nat \<Rightarrow> string" where
  "padEnd s n = s @ replicate (n - length s) CHR '' ''"

text \<open>
  \<^verbatim>\<open>toLowerCase\<close> on code units below 256: the letters A to Z, and the capital letters
  0xC0 to 0xDE without 0xD7 (the multiplication sign), which move up by 32.
\<close>

definition latin1Upper :: string where
  "latin1Upper =
       [CHR 0xC0, CHR 0xC1, CHR 0xC2, CHR 0xC3, CHR 0xC4, CHR 0xC5, CHR 0xC6, CHR 0xC7,
        CHR 0xC8, CHR 0xC9, CHR 0xCA, CHR 0xCB, CHR 0xCC, CHR 0xCD, CHR 0xCE, CHR 0xCF,
        CHR 0xD0, CHR 0xD1, CHR 0xD2, CHR 0xD3, CHR 0xD4, CHR 0xD5, CHR 0xD6, CHR 0xD8,
        CHR 0xD9, CHR 0xDA, CHR 0xDB, CHR 0xDC, CHR 0xDD, CHR 0xDE]"

definition latin1Lower :: string where
  "latin1Lower =
       [CHR 0xE0, CHR 0xE1, CHR 0xE2, CHR 0xE3, CHR 0xE4, CHR 0xE5, CHR 0xE6, CHR 0xE7,
        CHR 0xE8, CHR 0xE9, CHR 0xEA, CHR 0xEB, CHR 0xEC, CHR 0xED, CHR 0xEE, CHR 0xEF,
        CHR 0xF0, CHR 0xF1, CHR 0xF2, CHR 0xF3, CHR 0xF4, CHR 0xF5, CHR 0xF6, CHR 0xF8,
        CHR 0xF9, CHR 0xFA, CHR 0xFB, CHR 0xFC, CHR 0xFD, CHR 0xFE]"

definition lowerChar :: "char \<Rightarrow> char" where
  "lowerChar ch =
     (case map_of (zip (''ABCDEFGHIJKLMNOPQRSTUVWXYZ'' @ latin1Upper)
                       (''abcdefghijklmnopqrstuvwxyz'' @ latin1Lower)) ch of
        None \<Rightarrow> ch
      | Some l \<Rightarrow> l)"

definition toLowerCase :: "string \<Rightarrow> string" where
  "toLowerCase s = map lowerChar s"

text \<open>\<^verbatim>\<open>xs.join(sep)\<close> and \<^verbatim>\<open>s.split('\n')\<close>.\<close>

fun join :: "string \<Rightarrow> string list \<Rightarrow> string" where
  "join sep [] = []"
| "join sep [x] = x"
| "join sep (x # y # ys) = x @ sep @ join sep (y # ys)"

fun splitLines :: "string \<Rightarrow> string list" where
  "splitLines [] = [[]]"
| "splitLines (x # xs) =
     (if x = CHR 0x0A then [] # splitLines xs
      else (case splitLines xs of [] \<Rightarrow> [[x]] | l # ls \<Rightarrow> (x # l) # ls))"

section \<open>Pattern selection\<close>

text \<open>
  The pattern sets of \<^verbatim>\<open>generateArchitectureDiagram\<close>, one per branch of its
  \<^verbatim>\<open>switch\<close>. The source never reads \<^verbatim>\<open>methodRegex\<close> after assigning it.
\<close>

record patternSet =
  classRegex :: regexp
  functionRegex :: regexp
  methodRegex :: regexp
  importRegex :: regexp

definition quoteChars :: string where
  "quoteChars = [CHR 0x27, CHR 0x22]"

definition jsPatterns :: patternSet where
  "jsPatterns = \<lparr>
     classRegex = rx (seqs [str ''class'', Plus (Cls Space), Group 1 (Plus (Cls Word)),
       Opt (seqs [Plus (Cls Space), str ''extends'', Plus (Cls Space), Group 2 (Plus (Cls Word))])]),
     functionRegex = rx (seqs [str ''function'', Plus (Cls Space), Group 1 (Plus (Cls Word))]),
     methodRegex = rx (seqs [Group 1 (Plus (Cls Word)), Star (Cls Space), Chr CHR ''('',
       Star (Cls (NoneOf '')'')), Chr CHR '')'', Star (Cls Space), Chr CHR ''{'']),
     importRegex = rx (seqs [str ''import'', Plus (Cls Space),
       Alt (seqs [Chr CHR ''{'', Star (Cls (NoneOf ''}'')), Chr CHR ''}''])
           (Star (Cls (NoneOf ''{;''))),
       Opt (seqs [Plus (Cls Space), str ''from'']), Plus (Cls Space),
       Cls (OneOf quoteChars), Group 1 (Plus (Cls (NoneOf quoteChars))), Cls (OneOf quoteChars)])\<rparr>"

definition dottedName :: re where
  "dottedName = seqs [Plus (Cls Word), Star (seqs [Chr CHR ''.'', Plus (Cls Word)])]"

definition pythonPatterns :: patternSet where
  "pythonPatterns = \<lparr>
     classRegex = rx (seqs [str ''class'', Plus (Cls Space), Group 1 (Plus (Cls Word)),
       Opt (seqs [Chr CHR ''('', Group 2 (Plus (Cls (NoneOf '')''))), Chr CHR '')'']), Chr CHR '':'']),
     functionRegex = rx (seqs [str ''def'', Plus (Cls Space), Group 1 (Plus (Cls Word))]),
     methodRegex = rx (seqs [str ''def'', Plus (Cls Space), Group 1 (Plus (Cls Word)), Star (Cls Space),
       str ''(self'', Opt (Chr CHR '',''), Star (Cls (NoneOf '')'')), str ''):'']),
     importRegex = rx (Alt
       (seqs [str ''from'', Plus (Cls Space), Group 1 dottedName, Plus (Cls Space), str ''import''])
       (seqs [str ''import'', Plus (Cls Space), Group 2 dottedName]))\<rparr>"

definition javaFunction :: re where
  "javaFunction = seqs [Opt (alts [str ''public'', str ''private'', str ''protected'', str ''static'']),
     Plus (Cls Space), Plus (Cls Word), Plus (Cls Space), Group 1 (Plus (Cls Word)), Star (Cls Space),
     Chr CHR ''('', Star (Cls (NoneOf '')'')), Chr CHR '')'', Star (Cls Space), Chr CHR ''{'']"

definition javaPatterns :: patternSet where
  "javaPatterns = \<lparr>
     classRegex = rx (seqs [str ''class'', Plus (Cls Space), Group 1 (Plus (Cls Word)),
       Opt (seqs [Plus (Cls Space), str ''extends'', Plus (Cls Space), Group 2 (Plus (Cls Word))]),
       Opt (seqs [Plus (Cls Space), str ''implements'', Plus (Cls Space),
                  Group 3 (Plus (Cls (NoneOf ''{'')))])]),
     functionRegex = rx javaFunction,
     methodRegex = rx javaFunction,
     importRegex = rx (seqs [str ''import'', Plus (Cls Space), Group 1 (Plus (Cls (NoneOf '';''))),
       Chr CHR '';''])\<rparr>"

definition braceCall :: "nat \<Rightarrow> re" where
  "braceCall n = seqs [Group n (Plus (Cls Word)), Star (Cls Space), Chr CHR ''('',
     Star (Cls (NoneOf '')'')), Chr CHR '')'', Star (Cls Space), Chr CHR ''{'']"

definition genericPatterns :: patternSet where
  "genericPatterns = \<lparr>
     classRegex = rx (seqs [str ''class'', Plus (Cls Space), Group 1 (Plus (Cls Word))]),
     functionRegex = rx (alts [
       seqs [str ''function'', Plus (Cls Space), Group 1 (Plus (Cls Word))],
       seqs [str ''def'', Plus (Cls Space), Group 2 (Plus (Cls Word))],
       braceCall 3]),
     methodRegex = rx (Alt (braceCall 1) (seqs [str ''def'', Plus (Cls Space), Group 2 (Plus (Cls Word))])),
     importRegex = rx (alts [str ''import'', str ''require'', str ''include'', str ''using''])\<rparr>"

definition selectPatterns :: "string \<Rightarrow> patternSet" where
  "selectPatterns label =
     (if label \<in> set [''javascript'', ''typescript'', ''js'', ''ts''] then jsPatterns
      else if label = ''python'' then pythonPatterns
      else if label \<in> set [''java'', ''c#'', ''csharp''] then javaPatterns
      else genericPatterns)"

section \<open>The architecture diagram\<close>

text \<open>
  The component records of \<^verbatim>\<open>generateArchitectureDiagram\<close>. A name is a capture of a
  match and may be \<^verbatim>\<open>undefined\<close>; a parent is a string or \<^verbatim>\<open>null\<close>.
\<close>

record ClassInfo =
  cls_name :: "string option"
  cls_parent :: "string option"
  cls_index :: nat

record FunctionInfo =
  fn_name :: "string option"
  fn_index :: nat

record Relationship =
  rel_from :: "string option"
  rel_to :: "string option"
  rel_type :: string

definition classInfo :: "rematch \<Rightarrow> ClassInfo" where
  "classInfo m = \<lparr>cls_name = capture (groups m) 1,
                  cls_parent = orNull (capture (groups m) 2),
                  cls_index = index m\<rparr>"

definition functionInfo :: "rematch \<Rightarrow> FunctionInfo" where
  "functionInfo m = \<lparr>fn_name = jsOr (jsOr (capture (groups m) 1) (capture (groups m) 2))
                                      (capture (groups m) 3),
                     fn_index = index m\<rparr>"

definition importName :: "rematch \<Rightarrow> string" where
  "importName m = orElse (jsOr (capture (groups m) 1) (capture (groups m) 2)) ''external dependency''"

text \<open>
  The test of lines 127 to 134: the loop over the classes found so far, left at the first
  class whose block strictly contains the offset of the function match.
\<close>

fun isInsideClass :: "string \<Rightarrow> ClassInfo list \<Rightarrow> nat \<Rightarrow> bool" where
  "isInsideClass code [] matchIndex = False"
| "isInsideClass code (cls # rest) matchIndex =
     (let classCode = extractBlock code (cls_index cls)
      in if matchIndex > cls_index cls \<and> matchIndex < cls_index cls + length classCode
         then True
         else isInsideClass code rest matchIndex)"

text \<open>The body of the loop over the function matches: a match is pushed unless it is inside a class.\<close>

definition functionStep :: "string \<Rightarrow> ClassInfo list \<Rightarrow> rematch \<Rightarrow> FunctionInfo list \<Rightarrow> FunctionInfo list" where
  "functionStep code classes m functions =
     (if \<not> isInsideClass code classes (index m) then functions @ [functionInfo m] else functions)"

definition inheritance :: "ClassInfo list \<Rightarrow> Relationship list" where
  "inheritance classes =
     map (\<lambda>cls. \<lparr>rel_from = cls_name cls, rel_to = cls_parent cls, rel_type = ''inherits''\<rparr>)
         (filter (\<lambda>cls. truthy (cls_parent cls)) classes)"

definition callsOf :: "string \<Rightarrow> FunctionInfo list \<Rightarrow> FunctionInfo \<Rightarrow> Relationship list" where
  "callsOf code functions func =
     (let functionCode = extractBlock code (fn_index func)
      in map (\<lambda>otherFunc. \<lparr>rel_from = fn_name func, rel_to = fn_name otherFunc, rel_type = ''calls''\<rparr>)
             (filter (\<lambda>otherFunc. fn_name func \<noteq> fn_name otherFunc \<and>
                                   includesStr functionCode (tmpl (fn_name otherFunc) @ ''(''))
                     functions))"

definition analyzeRelationships :: "string \<Rightarrow> ClassInfo list \<Rightarrow> FunctionInfo list \<Rightarrow> Relationship list" where
  "analyzeRelationships code classes functions =
     inheritance classes @ concat (map (callsOf code functions) functions)"

text \<open>The glyphs of the connectors, as UTF-8 bytes: U+2500, U+2514, U+251C, U+2510.\<close>

definition glyphLine :: string where
  "glyphLine = [CHR 0xE2, CHR 0x94, CHR 0x80]"

definition glyphLast :: string where
  "glyphLast = [CHR 0xE2, CHR 0x94, CHR 0x94]"

definition glyphTee :: string where
  "glyphTee = [CHR 0xE2, CHR 0x94, CHR 0x9C]"

definition glyphCorner :: string where
  "glyphCorner = [CHR 0xE2, CHR 0x94, CHR 0x90]"

definition diagramHeader :: string where
  "diagramHeader = ''+----------------------+\<newline>'' @
                   ''|    Code Structure    |\<newline>'' @
                   ''+----------------------+\<newline>''"

definition renderDependencies :: "string list \<Rightarrow> string" where
  "renderDependencies imports =
     (if length imports > 0
      then ''\<newline>    Dependencies:\<newline>'' @
           concat (map (\<lambda>i. ''    ['' @ i @ '']\<newline>'') (take (min (length imports) 3) imports)) @
           (if length imports > 3 then ''    [...more dependencies...]\<newline>'' else []) @
           ''\<newline>        |\<newline>        v\<newline>''
      else [])"

text \<open>
  A class box. \<^verbatim>\<open>cls.name.padEnd(14)\<close> raises a TypeError when the name is
  \<^verbatim>\<open>undefined\<close>.
\<close>

definition box :: "string \<Rightarrow> string" where
  "box n = ''    +------------------+\<newline>'' @
           ''    |  '' @ padEnd n 14 @ ''  |\<newline>'' @
           ''    +------------------+\<newline>''"

definition classBox :: "string option \<Rightarrow> error + string" where
  "classBox nm = (case nm of None \<Rightarrow> Inl TypeError | Some n \<Rightarrow> Inr (box n))"

definition childBox :: "bool \<Rightarrow> string option \<Rightarrow> error + string" where
  "childBox isLast nm =
     (case nm of
        None \<Rightarrow> Inl TypeError
      | Some n \<Rightarrow> Inr (''    '' @ (if isLast then glyphLast else glyphTee) @ glyphLine @ glyphLine @
                        ''extends'' @ glyphLine @ glyphLine @ glyphCorner @ ''\<newline>'' @
                        ''                 +------------------+\<newline>'' @
                        ''                 |  '' @ padEnd n 14 @ ''  |\<newline>'' @
                        ''                 +------------------+\<newline>''))"

fun renderChildren :: "ClassInfo list \<Rightarrow> error + string" where
  "renderChildren [] = Inr []"
| "renderChildren (c # cs) =
     (case childBox (cs = []) (cls_name c) of
        Inl e \<Rightarrow> Inl e
      | Inr b \<Rightarrow> (case renderChildren cs of Inl e \<Rightarrow> Inl e | Inr r \<Rightarrow> Inr (b @ r)))"

fun renderParents :: "ClassInfo list \<Rightarrow> ClassInfo list \<Rightarrow> error + string" where
  "renderParents classes [] = Inr []"
| "renderParents classes (cls # rest) =
     (case classBox (cls_name cls) of
        Inl e \<Rightarrow> Inl e
      | Inr b \<Rightarrow>
          (case renderChildren (filter (\<lambda>c. strictEq (cls_parent c) (cls_name cls)) classes) of
             Inl e \<Rightarrow> Inl e
           | Inr ch \<Rightarrow>
               (case renderParents classes rest of
                  Inl e \<Rightarrow> Inl e
                | Inr r \<Rightarrow> Inr (b @ ch @ ''\<newline>'' @ r))))"

fun renderStandalone :: "ClassInfo list \<Rightarrow> error + string" where
  "renderStandalone [] = Inr []"
| "renderStandalone (cls # rest) =
     (case classBox (cls_name cls) of
        Inl e \<Rightarrow> Inl e
      | Inr b \<Rightarrow> (case renderStandalone rest of Inl e \<Rightarrow> Inl e | Inr r \<Rightarrow> Inr (b @ r)))"

definition parentClasses :: "ClassInfo list \<Rightarrow> ClassInfo list" where
  "parentClasses classes = filter (\<lambda>c. \<not> truthy (cls_parent c)) classes"

definition standaloneClasses :: "ClassInfo list \<Rightarrow> ClassInfo list" where
  "standaloneClasses classes =
     filter (\<lambda>c. \<not> truthy (cls_parent c) \<and>
                 \<not> list_ex (\<lambda>other. strictEq (cls_parent other) (cls_name c)) classes) classes"

definition renderClasses :: "ClassInfo list \<Rightarrow> error + string" where
  "renderClasses classes =
     (if length classes > 0
      then (case renderParents classes (parentClasses classes) of
              Inl e \<Rightarrow> Inl e
            | Inr ps \<Rightarrow>
                (case renderStandalone (standaloneClasses classes) of
                   Inl e \<Rightarrow> Inl e
                 | Inr ss \<Rightarrow> Inr (''\<newline>    Classes:\<newline>'' @ ps @ ss)))
      else Inr [])"

text \<open>
  The two loops over \<^verbatim>\<open>processedFunctions\<close>: the text they add, with the set of processed
  names threaded through.
\<close>

fun renderCalls :: "Relationship list \<Rightarrow> string option list \<Rightarrow> string \<times> string option list" where
  "renderCalls [] processed = ([], processed)"
| "renderCalls (rel # rels) processed =
     (if rel_from rel \<notin> set processed
      then (let (t, processed') = renderCalls rels (rel_to rel # rel_from rel # processed)
            in (''    ['' @ tmpl (rel_from rel) @ ''] '' @ glyphLine @ glyphLine @ ''calls'' @
                glyphLine @ glyphLine @ ''> ['' @ tmpl (rel_to rel) @ '']\<newline>'' @ t, processed'))
      else renderCalls rels processed)"

fun renderRemaining :: "FunctionInfo list \<Rightarrow> string option list \<Rightarrow> string" where
  "renderRemaining [] processed = []"
| "renderRemaining (func # funcs) processed =
     (if fn_name func \<notin> set processed
      then ''    ['' @ tmpl (fn_name func) @ '']\<newline>'' @ renderRemaining funcs (fn_name func # processed)
      else renderRemaining funcs processed)"

definition renderFunctions :: "FunctionInfo list \<Rightarrow> Relationship list \<Rightarrow> string" where
  "renderFunctions functions relationships =
     (if length functions > 0
      then (let (t, processed) = renderCalls (filter (\<lambda>r. rel_type r = ''calls'') relationships) []
            in ''\<newline>    Functions:\<newline>'' @ t @ renderRemaining functions processed)
      else [])"

definition renderFallback :: "ClassInfo list \<Rightarrow> FunctionInfo list \<Rightarrow> string" where
  "renderFallback classes functions =
     (if length classes = 0 \<and> length functions = 0
      then ''\<newline>    +------------------+\<newline>'' @
           ''    |  Implementation  |\<newline>'' @
           ''    +------------------+\<newline>''
      else [])"

definition renderDiagram ::
  "string list \<Rightarrow> ClassInfo list \<Rightarrow> FunctionInfo list \<Rightarrow> Relationship list \<Rightarrow> error + string" where
  "renderDiagram imports classes functions relationships =
     (case renderClasses classes of
        Inl e \<Rightarrow> Inl e
      | Inr cs \<Rightarrow> Inr (diagramHeader @ renderDependencies imports @ cs @
                       renderFunctions functions relationships @
                       renderFallback classes functions))"

text \<open>The three extraction loops of \<^verbatim>\<open>generateArchitectureDiagram\<close>.\<close>

definition extractClasses :: "patternSet \<Rightarrow> string \<Rightarrow> error + ClassInfo list" where
  "extractClasses ps code =
     execFold (classRegex ps) code (\<lambda>m classes. Inr (classes @ [classInfo m])) 0 []"

definition extractFunctions :: "patternSet \<Rightarrow> string \<Rightarrow> ClassInfo list \<Rightarrow> error + FunctionInfo list" where
  "extractFunctions ps code classes =
     execFold (functionRegex ps) code (\<lambda>m functions. Inr (functionStep code classes m functions)) 0 []"

definition extractImports :: "patternSet \<Rightarrow> string \<Rightarrow> error + string list" where
  "extractImports ps code =
     execFold (importRegex ps) code (\<lambda>m imports. Inr (imports @ [importName m])) 0 []"

definition generateArchitectureDiagram :: "string \<Rightarrow> string \<Rightarrow> error + string" where
  "generateArchitectureDiagram code programming_language =
     (let ps = selectPatterns (toLowerCase programming_language)
      in case extractClasses ps code of
           Inl e \<Rightarrow> Inl e
         | Inr classes \<Rightarrow>
             (case extractFunctions ps code classes of
                Inl e \<Rightarrow> Inl e
              | Inr functions \<Rightarrow>
                  (case extractImports ps code of
                     Inl e \<Rightarrow> Inl e
                   | Inr imports \<Rightarrow>
                       renderDiagram imports classes functions
                         (analyzeRelationships code classes functions))))"

section \<open>The functionality summary\<close>

text \<open>
  A probe is a case-insensitive pattern: a keyword, a keyword followed by \<^verbatim>\<open>\s*\(\<close>, or
  two words with \<^verbatim>\<open>\.\<close> or \<^verbatim>\<open>\s*\<close> between them.
\<close>

definition kw :: "string \<Rightarrow> regexp" where
  "kw w = rxi (str w)"

definition kwCall :: "string \<Rightarrow> regexp" where
  "kwCall w = rxi (seqs [str w, Star (Cls Space), Chr CHR ''(''])"

text \<open>
  The table \<^verbatim>\<open>patterns\<close> of \<^verbatim>\<open>extractCoreFunctionality\<close>, in the order in which its
  keys are inserted, and the probes that the \<^verbatim>\<open>switch\<close> on the language pushes.
\<close>

definition basePatterns :: "(string \<times> regexp list) list" where
  "basePatterns =
     [(''network'', [kwCall ''fetch'', kw ''http'', kw ''request'', kw ''api'', kw ''url'', kw ''endpoint'']),
      (''ui'', [kw ''render'', kw ''component'', kw ''view'', kw ''display'', kw ''ui'', kw ''interface'',
               kw ''dom'']),
      (''dataProcessing'', [kwCall ''map'', kwCall ''filter'', kwCall ''reduce'', kw ''transform'',
               kw ''convert'', kw ''parse'']),
      (''authentication'', [kw ''auth'', kw ''login'', kw ''password'', kw ''credential'', kw ''token'',
               kw ''permission'']),
      (''database'', [kw ''database'', kw ''db.'', kw ''query'', kw ''sql'', kw ''mongo'', kw ''store'',
               kw ''save'', kw ''repository'']),
      (''testing'', [kw ''test'', kw ''assert'', kw ''expect'', kw ''mock'', kw ''spec'']),
      (''algorithm'', [kw ''algorithm'', kw ''sort'', kw ''search'', kw ''calculate'', kw ''compute'']),
      (''fileSystem'', [kw ''file'', kw ''read'', kw ''write'', kw ''path'', kw ''directory'',
               kw ''folder''])]"

definition languageProbes :: "string \<Rightarrow> (string \<times> regexp list) list" where
  "languageProbes label =
     (if label \<in> set [''javascript'', ''typescript'', ''js'', ''ts'']
      then [(''ui'', [kw ''react'', kw ''angular'', kw ''vue'', kw ''component'', kw ''jsx'', kw ''tsx'']),
            (''network'', [kw ''axios'', kw ''fetch'', kw ''xhr'']),
            (''database'', [kw ''mongoose'', kw ''sequelize'', kw ''typeorm''])]
      else if label = ''python''
      then [(''ui'', [kw ''flask'', kw ''django'', kw ''template'']),
            (''network'', [kw ''requests'', kw ''urllib'']),
            (''database'', [kw ''sqlalchemy'', kw ''django.db'', kw ''cursor''])]
      else if label = ''java''
      then [(''ui'', [kw ''swing'', kw ''javafx'', kw ''awt'']),
            (''network'', [kw ''httpclient'', kw ''urlconnection'']),
            (''database'', [kw ''jdbc'', kw ''repository'', kw ''entity''])]
      else if label \<in> set [''c#'', ''csharp'']
      then [(''ui'', [kw ''wpf'', kw ''xaml'', kw ''winforms'']),
            (''network'', [kw ''httpclient'', kw ''webclient'']),
            (''database'', [rxi (seqs [str ''entity'', Star (Cls Space), str ''framework'']),
                           kw ''dbcontext''])]
      else [])"

definition purposePatterns :: "string \<Rightarrow> (string \<times> regexp list) list" where
  "purposePatterns label =
     map (\<lambda>e. (fst e, snd e @ (case map_of (languageProbes label) (fst e) of
                                   None \<Rightarrow> []
                                 | Some extra \<Rightarrow> extra)))
         basePatterns"

text \<open>\<^verbatim>\<open>matchCounts\<close>: per category, the number of its probes that match the text.\<close>

definition countMatches :: "(string \<times> regexp list) list \<Rightarrow> string \<Rightarrow> (string \<times> nat) list" where
  "countMatches patterns code =
     map (\<lambda>e. (fst e, length (filter (\<lambda>pattern. test pattern code) (snd e)))) patterns"

text \<open>
  \<^verbatim>\<open>Object.entries(matchCounts).sort((a, b) => b[1] - a[1])\<close>: a stable sort, larger
  counts first; entries with the same count keep their order.
\<close>

fun insertDesc :: "string \<times> nat \<Rightarrow> (string \<times> nat) list \<Rightarrow> (string \<times> nat) list" where
  "insertDesc e [] = [e]"
| "insertDesc e (x # xs) = (if snd e < snd x then x # insertDesc e xs else e # x # xs)"

fun sortDesc :: "(string \<times> nat) list \<Rightarrow> (string \<times> nat) list" where
  "sortDesc [] = []"
| "sortDesc (e # es) = insertDesc e (sortDesc es)"

definition rankCategories :: "(string \<times> nat) list \<Rightarrow> string list" where
  "rankCategories matchCounts = map fst (filter (\<lambda>e. snd e > 0) (sortDesc matchCounts))"

text \<open>\<^verbatim>\<open>xs[i]\<close> for a list of strings: \<^verbatim>\<open>undefined\<close> beyond the end.\<close>

definition at :: "string list \<Rightarrow> nat \<Rightarrow> string option" where
  "at xs i = (if i < length xs then Some (xs ! i) else None)"

text \<open>
  \<^verbatim>\<open>matches[category]\<close>: set to true with every counted match, so true exactly for the
  categories of the table with a positive count; any other key reads \<^verbatim>\<open>undefined\<close>.
\<close>

definition matchesFlag :: "(string \<times> nat) list \<Rightarrow> string \<Rightarrow> bool" where
  "matchesFlag matchCounts category =
     (case map_of matchCounts category of None \<Rightarrow> False | Some n \<Rightarrow> n > 0)"

definition primarySentence :: "string \<Rightarrow> (string \<Rightarrow> bool) \<Rightarrow> string" where
  "primarySentence primaryPurpose matches =
     (if primaryPurpose = ''ui''
      then ''implement a user interface '' @
           (if matches ''network'' then ''that communicates with external services. ''
            else if matches ''database'' then ''that interacts with a database. ''
            else ''for displaying and interacting with data. '')
      else if primaryPurpose = ''network''
      then ''handle network communication, '' @
           (if matches ''api'' then ''likely serving as an API or service layer. ''
            else ''facilitating data exchange with external systems. '')
      else if primaryPurpose = ''dataProcessing''
      then ''process and transform data, '' @
           (if matches ''algorithm'' then ''implementing specific algorithms for data manipulation. ''
            else ''implementing business logic or data transformation. '')
      else if primaryPurpose = ''database''
      then ''interact with a database, '' @
           (if matches ''dataProcessing'' then ''performing data operations and transformations. ''
            else ''managing data persistence and retrieval. '')
      else if primaryPurpose = ''authentication''
      then ''handle authentication and authorization, '' @
           (if matches ''ui'' then ''providing secure user access to the interface. ''
            else if matches ''network'' then ''securing API endpoints or network resources. ''
            else ''managing user credentials and permissions. '')
      else if primaryPurpose = ''testing''
      then ''implement tests for '' @
           (if matches ''ui'' then ''user interface components. ''
            else if matches ''network'' then ''network communication. ''
            else if matches ''database'' then ''database operations. ''
            else ''application functionality. '')
      else if primaryPurpose = ''algorithm''
      then ''implement specific algorithms '' @
           (if matches ''dataProcessing'' then ''for data processing and transformation. ''
            else ''to solve computational problems. '')
      else if primaryPurpose = ''fileSystem''
      then ''handle file system operations, '' @
           (if matches ''dataProcessing'' then ''processing file data. ''
            else ''managing file reading, writing, or organization. '')
      else ''provide utility functions or core logic for the application. '')"

definition secondaryName :: "string \<Rightarrow> string" where
  "secondaryName secondaryPurpose =
     (if secondaryPurpose = ''ui'' then ''user interface presentation''
      else if secondaryPurpose = ''network'' then ''network communication''
      else if secondaryPurpose = ''dataProcessing'' then ''data processing and transformation''
      else if secondaryPurpose = ''database'' then ''database interaction''
      else if secondaryPurpose = ''authentication'' then ''authentication and security''
      else if secondaryPurpose = ''testing'' then ''testing and validation''
      else if secondaryPurpose = ''algorithm'' then ''algorithmic computation''
      else if secondaryPurpose = ''fileSystem'' then ''file system operations''
      else [])"

text \<open>\<^verbatim>\<open>matchCounts[secondaryPurpose] > 1\<close>; a missing key reads \<^verbatim>\<open>undefined\<close>, which is not greater.\<close>

definition countAbove1 :: "(string \<times> nat) list \<Rightarrow> string \<Rightarrow> bool" where
  "countAbove1 matchCounts category =
     (case map_of matchCounts category of None \<Rightarrow> False | Some n \<Rightarrow> n > 1)"

definition secondaryClause :: "(string \<times> nat) list \<Rightarrow> string option \<Rightarrow> string" where
  "secondaryClause matchCounts secondaryPurpose =
     (case secondaryPurpose of
        None \<Rightarrow> []
      | Some s \<Rightarrow>
          if s \<noteq> [] \<and> countAbove1 matchCounts s
          then ''It also includes functionality for '' @ secondaryName s @ ''.''
          else [])"

definition purposeCounts :: "string \<Rightarrow> string \<Rightarrow> (string \<times> nat) list" where
  "purposeCounts code programming_language =
     countMatches (purposePatterns (toLowerCase programming_language)) code"

definition extractCoreFunctionality :: "string \<Rightarrow> string \<Rightarrow> string" where
  "extractCoreFunctionality code programming_language =
     (let matchCounts = purposeCounts code programming_language;
          sortedCategories = rankCategories matchCounts;
          primaryPurpose = at sortedCategories 0;
          secondaryPurpose = at sortedCategories 1
      in if \<not> truthy primaryPurpose
         then ''This code appears to '' @
              ''provide general utility functions or core logic for the application.''
         else ''This code appears to '' @
              primarySentence (tmpl primaryPurpose) (matchesFlag matchCounts) @
              secondaryClause matchCounts secondaryPurpose)"

section \<open>Component descriptions\<close>

definition tripleSingle :: string where
  "tripleSingle = [CHR 0x27, CHR 0x27, CHR 0x27]"

definition tripleDouble :: string where
  "tripleDouble = [CHR 0x22, CHR 0x22, CHR 0x22]"

definition docstringRegex :: regexp where
  "docstringRegex = rx (seqs [Alt (str tripleSingle) (str tripleDouble),
                             Group 1 (LazyStar (Cls AnyChar)),
                             Alt (str tripleSingle) (str tripleDouble)])"

definition jsdocRegex :: regexp where
  "jsdocRegex = rx (seqs [str ''/**'', Group 1 (LazyStar (Cls AnyChar)), str ''*/''])"

text \<open>
  The loop over the lines of a component that contains \<^verbatim>\<open>//\<close>: \<open>commentLines\<close> and
  \<open>inCommentBlock\<close> are its state, and it is left at the first other line after a comment.
\<close>

fun scanCommentLines :: "string list \<Rightarrow> string list \<Rightarrow> bool \<Rightarrow> string list" where
  "scanCommentLines [] commentLines inCommentBlock = commentLines"
| "scanCommentLines (line # lines) commentLines inCommentBlock =
     (let trimmedLine = trim line
      in if take 2 trimmedLine = ''//''
         then scanCommentLines lines (commentLines @ [trim (drop 2 trimmedLine)]) True
         else if inCommentBlock \<and> length trimmedLine = 0
         then scanCommentLines lines commentLines inCommentBlock
         else if length commentLines > 0 then commentLines
         else scanCommentLines lines commentLines False)"

text \<open>
  The clean-up of a documentation comment: \<^verbatim>\<open>/\s*\*\s*/g\<close> and \<^verbatim>\<open>/\s+/g\<close> become one
  space, \<^verbatim>\<open>/@\w+\s+[^\n]+/g\<close> is removed, and the result is trimmed.
\<close>

definition cleanComment :: "string \<Rightarrow> string" where
  "cleanComment c =
     trim (replaceAll (rx (seqs [Chr CHR ''@'', Plus (Cls Word), Plus (Cls Space),
                                 Plus (Cls (NoneOf [CHR 0x0A]))])) (\<lambda>m. [])
            (replaceAll (rx (Plus (Cls Space))) (\<lambda>m. '' '')
              (replaceAll (rx (seqs [Star (Cls Space), Chr CHR ''*'', Star (Cls Space)])) (\<lambda>m. '' '') c)))"

text \<open>
  The first part of \<^verbatim>\<open>generateComponentDescription\<close>: \<open>Inr (Some d)\<close> when a comment
  gives the description \<open>d\<close>, \<open>Inr None\<close> when the heuristics have to decide.
  \<^verbatim>\<open>commentMatch[1].replace\<close> raises a TypeError when the capture is \<^verbatim>\<open>undefined\<close>.
\<close>

definition fromRegex :: "regexp \<Rightarrow> string \<Rightarrow> error + string option" where
  "fromRegex commentRegex componentCode =
     (case match1 commentRegex componentCode of
        None \<Rightarrow> Inr None
      | Some commentMatch \<Rightarrow>
          (case capture (groups commentMatch) 1 of
             None \<Rightarrow> Inl TypeError
           | Some c \<Rightarrow> (let comment = cleanComment c
                        in if length comment > 0 then Inr (Some comment) else Inr None)))"

definition commentDescription :: "string \<Rightarrow> error + string option" where
  "commentDescription componentCode =
     (if includesStr componentCode tripleDouble \<or> includesStr componentCode tripleSingle
      then fromRegex docstringRegex componentCode
      else if includesStr componentCode ''/**''
      then fromRegex jsdocRegex componentCode
      else if includesStr componentCode ''//''
      then (let commentLines = scanCommentLines (splitLines componentCode) [] False
            in if length commentLines > 0 then Inr (Some (join '' '' commentLines)) else Inr None)
      else Inr None)"

text \<open>
  The component name: the capture of \<^verbatim>\<open>/class\s+(\w+)/\<close> for a class, of
  \<^verbatim>\<open>/function\s+(\w+)|def\s+(\w+)/\<close> otherwise, the empty string without a match.
\<close>

definition classNameRegex :: regexp where
  "classNameRegex = rx (seqs [str ''class'', Plus (Cls Space), Group 1 (Plus (Cls Word))])"

definition functionNameRegex :: regexp where
  "functionNameRegex = rx (Alt (seqs [str ''function'', Plus (Cls Space), Group 1 (Plus (Cls Word))])
                               (seqs [str ''def'', Plus (Cls Space), Group 2 (Plus (Cls Word))]))"

definition rawComponentName :: "string \<Rightarrow> string \<Rightarrow> string option" where
  "rawComponentName componentCode type =
     (if type = ''class''
      then (case match1 classNameRegex componentCode of
              None \<Rightarrow> Some []
            | Some classNameMatch \<Rightarrow> capture (groups classNameMatch) 1)
      else (case match1 functionNameRegex componentCode of
              None \<Rightarrow> Some []
            | Some functionNameMatch \<Rightarrow>
                jsOr (capture (groups functionNameMatch) 1) (capture (groups functionNameMatch) 2)))"

text \<open>
  \<^verbatim>\<open>.replace(/([A-Z])/g, ' $1').replace(/^./, str => str.toUpperCase()).trim()\<close>. The
  pattern \<^verbatim>\<open>/^./\<close> matches the first code unit unless it ends a line; that code unit is a
  space or a word character here, so its upper case is that of the letters a to z.
\<close>

definition upperFirst :: "string \<Rightarrow> string" where
  "upperFirst s =
     (case s of
        [] \<Rightarrow> []
      | x # xs \<Rightarrow> if x = CHR 0x0A \<or> x = CHR 0x0D then s else upperAZ x # xs)"

definition toWords :: "string \<Rightarrow> string" where
  "toWords n = trim (upperFirst (replaceAll (rx (Group 1 (Cls (OneOf ''ABCDEFGHIJKLMNOPQRSTUVWXYZ''))))
                                          (\<lambda>m. '' '' @ m) n))"

definition componentName :: "string \<Rightarrow> string \<Rightarrow> string option" where
  "componentName componentCode type =
     (let raw = rawComponentName componentCode type
      in if truthy raw then Some (toWords (tmpl raw)) else raw)"

text \<open>\<^verbatim>\<open>${componentName ? componentName + ' - ' : ''}\<close>\<close>

definition namePrefix :: "string option \<Rightarrow> string" where
  "namePrefix nm = (if truthy nm then tmpl nm @ '' - '' else [])"

definition descPatterns :: "(string \<times> regexp list) list" where
  "descPatterns =
     [(''ui'', [kw ''render'', kw ''component'', kw ''view'', kw ''display'', kw ''dom'', kw ''element'',
               kw ''ui'']),
      (''data'', [kw ''data'', kw ''state'', kw ''store'', kw ''model'', kw ''entity'', kw ''repository'']),
      (''network'', [kw ''fetch'', kw ''http'', kw ''request'', kw ''api'', kw ''url'', kw ''endpoint'']),
      (''utility'', [kw ''util'', kw ''helper'', kw ''format'', kw ''convert'', kw ''transform'']),
      (''event'', [kw ''event'', kw ''listener'', kw ''handler'', kw ''callback'', kw ''click'',
               kw ''change'']),
      (''auth'', [kw ''auth'', kw ''login'', kw ''permission'', kw ''role'', kw ''access'', kw ''token'']),
      (''file'', [kw ''file'', kw ''read'', kw ''write'', kw ''save'', kw ''load'', kw ''path'']),
      (''math'', [kw ''calc'', kw ''compute'', kw ''sum'', kw ''average'', kw ''math'', kw ''formula''])]"

definition classTemplate :: "string option \<Rightarrow> string \<Rightarrow> string" where
  "classTemplate primaryPurpose componentCode =
     (if primaryPurpose = Some ''ui'' then ''A UI component that handles rendering and user interaction''
      else if primaryPurpose = Some ''data'' then ''Manages data and state for the application''
      else if primaryPurpose = Some ''network'' then ''Provides services or API interactions''
      else if primaryPurpose = Some ''auth'' then ''Handles authentication and authorization''
      else if primaryPurpose = Some ''file'' then ''Manages file operations and storage''
      else if includesStr componentCode ''extends'' \<or> includesStr componentCode ''implements''
      then ''A base class that defines core functionality''
      else ''Encapsulates related functionality and data'')"

definition functionTemplate :: "string option \<Rightarrow> bool \<Rightarrow> bool \<Rightarrow> string" where
  "functionTemplate primaryPurpose hasParameters hasReturn =
     (if primaryPurpose = Some ''ui''
      then (if hasReturn then ''Generates'' else ''Renders'') @ '' UI elements'' @
           (if hasParameters then '' based on input parameters'' else [])
      else if primaryPurpose = Some ''data''
      then (if hasReturn then ''Processes and transforms'' else ''Manages'') @ '' data'' @
           (if hasParameters then '' from input parameters'' else [])
      else if primaryPurpose = Some ''network''
      then ''Handles network communication'' @
           (if hasParameters then '' with specified endpoints'' else [])
      else if primaryPurpose = Some ''utility''
      then ''Utility function that '' @
           (if hasReturn then ''processes input and returns a result'' else ''performs operations'')
      else if primaryPurpose = Some ''event'' then ''Event handler that responds to user interactions''
      else if primaryPurpose = Some ''auth'' then ''Manages authentication or authorization processes''
      else if primaryPurpose = Some ''file'' then ''Handles file system operations''
      else if primaryPurpose = Some ''math''
      then ''Performs mathematical calculations'' @ (if hasParameters then '' on input values'' else [])
      else if hasReturn \<and> hasParameters then ''Processes input parameters and returns a result''
      else if hasReturn then ''Computes and returns a value''
      else if hasParameters then ''Performs operations based on input parameters''
      else ''Performs a specific operation or task'')"

definition heuristicDescription :: "string \<Rightarrow> string \<Rightarrow> string" where
  "heuristicDescription componentCode type =
     (let name = componentName componentCode type;
          primaryPurpose = at (rankCategories (countMatches descPatterns componentCode)) 0
      in if type = ''class''
         then namePrefix name @ classTemplate primaryPurpose componentCode
         else (let hasParameters = test (rx (seqs [Chr CHR ''('', Plus (Cls (NoneOf '')'')), Chr CHR '')'']))
                                        componentCode;
                   hasReturn = test (rx (str ''return'')) componentCode
               in namePrefix name @ functionTemplate primaryPurpose hasParameters hasReturn))"

definition generateComponentDescription :: "string \<Rightarrow> string \<Rightarrow> error + string" where
  "generateComponentDescription componentCode type =
     (case commentDescription componentCode of
        Inl e \<Rightarrow> Inl e
      | Inr (Some comment) \<Rightarrow> Inr comment
      | Inr None \<Rightarrow> Inr (heuristicDescription componentCode type))"

section \<open>Component lists and the report\<close>

record Component =
  comp_name :: "string option"
  description :: string

definition componentStep :: "string \<Rightarrow> string \<Rightarrow> rematch \<Rightarrow> Component list \<Rightarrow> error + Component list" where
  "componentStep code type m components =
     (case generateComponentDescription (extractBlock code (index m)) type of
        Inl e \<Rightarrow> Inl e
      | Inr d \<Rightarrow> Inr (components @ [\<lparr>comp_name = capture (groups m) 1, description = d\<rparr>]))"

definition arrowFunctionRegex :: regexp where
  "arrowFunctionRegex = rx (seqs [str ''const'', Plus (Cls Space), Group 1 (Plus (Cls Word)),
     Star (Cls Space), Chr CHR ''='', Star (Cls Space),
     Group 2 (Alt (seqs [Chr CHR ''('', Star (Cls (NoneOf '')'')), Chr CHR '')''])
                  (Star (Cls (NoneOf ''='')))),
     Star (Cls Space), str ''=>''])"

text \<open>
  \<^verbatim>\<open>extractComponents\<close> takes the language label and never reads it. Its three loops
  run one after the other; the second and third push to the same list.
\<close>

definition extractComponents :: "string \<Rightarrow> string \<Rightarrow> error + (Component list \<times> Component list)" where
  "extractComponents code programming_language =
     (case execFold classNameRegex code (componentStep code ''class'') 0 [] of
        Inl e \<Rightarrow> Inl e
      | Inr mainClasses \<Rightarrow>
          (case execFold (rx (seqs [str ''function'', Plus (Cls Space), Group 1 (Plus (Cls Word))]))
                         code (componentStep code ''function'') 0 [] of
             Inl e \<Rightarrow> Inl e
           | Inr functions1 \<Rightarrow>
               (case execFold arrowFunctionRegex code (componentStep code ''function'') 0 functions1 of
                  Inl e \<Rightarrow> Inl e
                | Inr mainFunctions \<Rightarrow> Inr (mainClasses, mainFunctions))))"

definition bullet :: "Component \<Rightarrow> string" where
  "bullet c = ''- '' @ tmpl (comp_name c) @ '': '' @ description c"

definition fence :: string where
  "fence = [CHR 0x60, CHR 0x60, CHR 0x60]"

definition report :: "string \<Rightarrow> string \<Rightarrow> string \<Rightarrow> Component list \<Rightarrow> Component list \<Rightarrow> string" where
  "report programming_language architectureDiagram coreFunctionality mainClasses mainFunctions =
     ''\<newline>  # Code Analysis for '' @ programming_language @ '' Code\<newline>'' @
     ''  \<newline>'' @
     ''  ## Architecture Diagram\<newline>'' @
     ''  '' @ fence @ ''\<newline>'' @
     ''  '' @ architectureDiagram @ ''\<newline>'' @
     ''  '' @ fence @ ''\<newline>'' @
     ''  \<newline>'' @
     ''  ## Core Functionality\<newline>'' @
     ''  '' @ coreFunctionality @ ''\<newline>'' @
     ''  \<newline>'' @
     ''  ## Main Classes:\<newline>'' @
     ''  '' @ join ''\<newline>'' (map bullet mainClasses) @ ''\<newline>'' @
     ''  \<newline>'' @
     ''  ## Main Functions:\<newline>'' @
     ''  '' @ join ''\<newline>'' (map bullet mainFunctions) @ ''\<newline>'' @
     ''  \<newline>'' @
     ''  Would you like me to explain all the functions and classes in detail? '' @
     ''Or are you more interested in a specific part?\<newline>'' @
     ''  ''"

definition explainCode :: "string \<Rightarrow> string \<Rightarrow> error + string" where
  "explainCode code programming_language =
     (case generateArchitectureDiagram code programming_language of
        Inl e \<Rightarrow> Inl e
      | Inr architectureDiagram \<Rightarrow>
          (let coreFunctionality = extractCoreFunctionality code programming_language
           in case extractComponents code programming_language of
                Inl e \<Rightarrow> Inl e
              | Inr (mainClasses, mainFunctions) \<Rightarrow>
                  Inr (report programming_language architectureDiagram coreFunctionality
                         mainClasses mainFunctions)))"

section \<open>The block contract in the words of the specification\<close>

text \<open>
  The specification describes the block by positions: the first opening brace at or after
  the start offset, and the first later position at which the nesting depth, counted from
  that brace, is back at zero. \<open>braceDepth\<close> is the number of opening braces of a text
  minus the number of its closing braces, and \<open>slice s i j\<close> the text from offset \<open>i\<close>
  up to, not including, offset \<open>j\<close>.
\<close>

definition braceDepth :: "string \<Rightarrow> int" where
  "braceDepth s = int (length (filter (\<lambda>ch. ch = CHR ''{'') s)) - int (length (filter (\<lambda>ch. ch = CHR ''}'') s))"

definition slice :: "string \<Rightarrow> nat \<Rightarrow> nat \<Rightarrow> string" where
  "slice s i j = take (j - i) (drop i s)"

definition blockSpec :: "string \<Rightarrow> nat \<Rightarrow> string" where
  "blockSpec code startOffset =
     (case find (\<lambda>i. code ! i = CHR ''{'') [startOffset..<length code] of
        None \<Rightarrow> []
      | Some opn \<Rightarrow>
          (case find (\<lambda>j. braceDepth (slice code opn (Suc j)) = 0) [Suc opn..<length code] of
             None \<Rightarrow> slice code startOffset (length code)
           | Some closing \<Rightarrow> slice code startOffset (Suc closing)))"

section \<open>The ranking of categories in the words of the specification\<close>



section \<open>Side conditions on patterns\<close>

text \<open>
  \<open>nullable r\<close> holds when \<open>r\<close> may match the empty text (a sound approximation), and
  \<open>binds n r\<close> when every match of \<open>r\<close> sets the capture \<open>n\<close>. A pattern set is well
  formed when none of the three patterns run in a loop is nullable and the class pattern
  binds its first capture, the class name.
\<close>

fun nullable :: "re \<Rightarrow> bool" where
  "nullable Eps = True"
| "nullable (Chr a) = False"
| "nullable (Cls k) = False"
| "nullable (Seq r1 r2) = (nullable r1 \<and> nullable r2)"
| "nullable (Alt r1 r2) = (nullable r1 \<or> nullable r2)"
| "nullable (Opt r) = True"
| "nullable (Star r) = True"
| "nullable (LazyStar r) = True"
| "nullable (Group n r) = nullable r"

fun binds :: "nat \<Rightarrow> re \<Rightarrow> bool" where
  "binds n Eps = False"
| "binds n (Chr a) = False"
| "binds n (Cls k) = False"
| "binds n (Seq r1 r2) = (binds n r2 \<or> (binds n r1 \<and> n \<notin> set (groupsOf r2)))"
| "binds n (Alt r1 r2) = (binds n r1 \<and> binds n r2)"
| "binds n (Opt r) = False"
| "binds n (Star r) = False"
| "binds n (LazyStar r) = False"
| "binds n (Group m r) = (m = n \<or> binds n r)"


definition wellFormed :: "patternSet \<Rightarrow> bool" where
  "wellFormed ps =
     (\<not> nullable (expr (classRegex ps)) \<and> \<not> nullable (expr (functionRegex ps)) \<and>
      \<not> nullable (expr (importRegex ps)) \<and> binds 1 (expr (classRegex ps)))"




section \<open>Properties of the pattern matcher\<close>

text \<open>
  A match never gives back text, consumes some unless the pattern is nullable, and sets the
  captures that the pattern binds. A loop over the matches of a pattern that is not nullable
  ends, and keeps every invariant that its body keeps.
\<close>

declare rmatch.simps(7,8) [simp del]

lemma rmatch_progress:
  "(s', c') \<in> set (rmatch ic r s c) \<Longrightarrow>
   length s' \<le> length s \<and> (\<not> nullable r \<longrightarrow> length s' < length s)"
proof (induction ic r s c arbitrary: s' c' rule: rmatch.induct)
  case (1 ic s c)
  then show ?case by simp
next
  case (2 ic a s c)
  then show ?case by (auto split: list.splits if_splits)
next
  case (3 ic k s c)
  then show ?case by (auto split: list.splits if_splits)
next
  case (4 ic r1 r2 s c)
  from "4.prems" obtain s1 c1 where q1: "(s1, c1) \<in> set (rmatch ic r1 s c)"
    and q: "(s', c') \<in> set (rmatch ic r2 s1 c1)"
    by auto
  from "4.IH"(1)[OF q1] "4.IH"(2)[OF q1] q show ?case
    by fastforce
next
  case (5 ic r1 r2 s c)
  then show ?case by auto
next
  case (6 ic r s c)
  then show ?case by auto
next
  case (7 ic r s c)
  from "7.prems" consider "(s', c') = (s, c)"
    | s1 c1 where "(s1, c1) \<in> set (rmatch ic r s (clear r c))" "length s1 < length s"
        "(s', c') \<in> set (rmatch ic (Star r) s1 c1)"
    by (subst (asm) rmatch.simps) (auto split: if_splits)
  then show ?case
  proof cases
    case 1
    then show ?thesis by simp
  next
    case 2
    from "7.IH"(2)[of "(s1, c1)" s' c'] 2 show ?thesis by simp
  qed
next
  case (8 ic r s c)
  from "8.prems" consider "(s', c') = (s, c)"
    | s1 c1 where "(s1, c1) \<in> set (rmatch ic r s (clear r c))" "length s1 < length s"
        "(s', c') \<in> set (rmatch ic (LazyStar r) s1 c1)"
    by (subst (asm) rmatch.simps) (auto split: if_splits)
  then show ?case
  proof cases
    case 1
    then show ?thesis by simp
  next
    case 2
    from "8.IH"(2)[of "(s1, c1)" s' c'] 2 show ?thesis by simp
  qed
next
  case (9 ic n r s c)
  then show ?case by auto
qed


lemma map_of_clear:
  "map_of (clear r c) n = (if n \<in> set (groupsOf r) then None else map_of c n)"
  unfolding clear_def by (induction c) auto

lemma rmatch_caps:
  "(s', c') \<in> set (rmatch ic r s c) \<Longrightarrow>
   (binds n r \<longrightarrow> map_of c' n \<noteq> None) \<and> (n \<notin> set (groupsOf r) \<longrightarrow> map_of c' n = map_of c n)"
proof (induction ic r s c arbitrary: s' c' rule: rmatch.induct)
  case (1 ic s c)
  then show ?case by simp
next
  case (2 ic a s c)
  then show ?case by (auto split: list.splits if_splits)
next
  case (3 ic k s c)
  then show ?case by (auto split: list.splits if_splits)
next
  case (4 ic r1 r2 s c)
  from "4.prems" obtain s1 c1 where q1: "(s1, c1) \<in> set (rmatch ic r1 s c)"
    and q: "(s', c') \<in> set (rmatch ic r2 s1 c1)"
    by auto
  from "4.IH"(1)[OF q1] "4.IH"(2)[of "(s1, c1)" s' c'] q1 q show ?case
    by auto
next
  case (5 ic r1 r2 s c)
  then show ?case by auto
next
  case (6 ic r s c)
  then show ?case by (auto simp: map_of_clear)
next
  case (7 ic r s c)
  from "7.prems" consider "(s', c') = (s, c)"
    | s1 c1 where "(s1, c1) \<in> set (rmatch ic r s (clear r c))" "length s1 < length s"
        "(s', c') \<in> set (rmatch ic (Star r) s1 c1)"
    by (subst (asm) rmatch.simps) (auto split: if_splits)
  then show ?case
  proof cases
    case 1
    then show ?thesis by simp
  next
    case 2
    from "7.IH"(1)[OF 2(1)] "7.IH"(2)[of "(s1, c1)" s' c'] 2 show ?thesis
      by (simp add: map_of_clear)
  qed
next
  case (8 ic r s c)
  from "8.prems" consider "(s', c') = (s, c)"
    | s1 c1 where "(s1, c1) \<in> set (rmatch ic r s (clear r c))" "length s1 < length s"
        "(s', c') \<in> set (rmatch ic (LazyStar r) s1 c1)"
    by (subst (asm) rmatch.simps) (auto split: if_splits)
  then show ?case
  proof cases
    case 1
    then show ?thesis by simp
  next
    case 2
    from "8.IH"(1)[OF 2(1)] "8.IH"(2)[of "(s1, c1)" s' c'] 2 show ?thesis
      by (simp add: map_of_clear)
  qed
next
  case (9 ic n r s c)
  then show ?case by auto
qed

lemma search_Some:
  "search p s pos = Some m \<Longrightarrow>
   pos \<le> index m \<and> index m + length (matched m) \<le> pos + length s \<and>
   (\<not> nullable (expr p) \<longrightarrow> 0 < length (matched m)) \<and>
   (binds n (expr p) \<longrightarrow> capture (groups m) n \<noteq> None)"
proof (induction s arbitrary: pos)
  case Nil
  then obtain q qs where q: "rmatch (ignoreCase p) (expr p) [] [] = q # qs"
    and m: "m = \<lparr>index = pos, matched = [], groups = snd q\<rparr>"
    by (auto split: list.splits)
  from q have "(fst q, snd q) \<in> set (rmatch (ignoreCase p) (expr p) [] [])" by simp
  from rmatch_progress[OF this] rmatch_caps[OF this, of n] m show ?case
    by (auto simp: capture_def)
next
  case (Cons x xs)
  show ?case
  proof (cases "rmatch (ignoreCase p) (expr p) (x # xs) []")
    case Nil
    with Cons.prems have "search p xs (Suc pos) = Some m" by simp
    from Cons.IH[OF this] show ?thesis by simp
  next
    case (Cons q qs)
    with Cons.prems have m: "m = \<lparr>index = pos,
        matched = take (length (x # xs) - length (fst q)) (x # xs), groups = snd q\<rparr>"
      by simp
    from Cons have "(fst q, snd q) \<in> set (rmatch (ignoreCase p) (expr p) (x # xs) [])" by simp
    from rmatch_progress[OF this] rmatch_caps[OF this, of n] m show ?thesis
      by (auto simp: capture_def)
  qed
qed

lemma exec_Some:
  assumes "exec p s i = Some m"
  shows "i \<le> index m" and "index m + length (matched m) \<le> length s"
    and "\<not> nullable (expr p) \<Longrightarrow> i < index m + length (matched m)"
    and "binds n (expr p) \<Longrightarrow> capture (groups m) n \<noteq> None"
proof -
  from assms have le: "i \<le> length s" and sr: "search p (drop i s) i = Some m"
    by (auto simp: exec_def split: if_splits)
  from search_Some[OF sr, of n]
  have a: "i \<le> index m" "index m + length (matched m) \<le> i + length (drop i s)"
    and b: "\<not> nullable (expr p) \<longrightarrow> 0 < length (matched m)"
    and c: "binds n (expr p) \<longrightarrow> capture (groups m) n \<noteq> None"
    by blast+
  show "i \<le> index m" by (rule a(1))
  show "index m + length (matched m) \<le> length s" using a(2) le by simp
  show "i < index m + length (matched m)" if "\<not> nullable (expr p)"
  proof -
    from b that have "0 < length (matched m)" by blast
    with a(1) show ?thesis by linarith
  qed
  show "capture (groups m) n \<noteq> None" if "binds n (expr p)"
    using c that by blast
qed

declare execFold.simps [simp del]

lemma execFold_rule:
  "\<not> nullable (expr p) \<Longrightarrow>
   (\<And>m j a. exec p s j = Some m \<Longrightarrow> I a \<Longrightarrow> \<exists>a'. body m a = Inr a' \<and> I a') \<Longrightarrow>
   I acc \<Longrightarrow> \<exists>r. execFold p s body i acc = Inr r \<and> I r"
proof (induction p s body i acc rule: execFold.induct)
  case (1 p s body i acc)
  note nn = "1.prems"(1) and step = "1.prems"(2) and inv = "1.prems"(3)
  show ?case
  proof (cases "exec p s i")
    case None
    with inv show ?thesis
      by (subst execFold.simps) simp
  next
    case (Some m)
    from step[OF Some inv] obtain a' where a': "body m acc = Inr a'" "I a'" by blast
    from exec_Some(3)[OF Some nn] have lt: "i < index m + length (matched m)" .
    from "1.IH"[OF Some a'(1) lt nn step a'(2)] Some a' lt show ?thesis
      by (subst execFold.simps) simp
  qed
qed

section \<open>Properties of block extraction\<close>

lemma find_map_comp: "find P (map f xs) = map_option f (find (\<lambda>x. P (f x)) xs)"
  by (induction xs) auto

lemma indexFrom_find:
  "indexFrom ch (drop i s) i = find (\<lambda>k. s ! k = ch) [i..<length s]"
proof (induction "length s - i" arbitrary: i)
  case 0
  then show ?case by simp
next
  case (Suc n)
  then have lt: "i < length s" by simp
  then have d: "drop i s = s ! i # drop (Suc i) s"
    by (simp add: Cons_nth_drop_Suc)
  from Suc have "n = length s - Suc i" by simp
  from Suc.hyps(1)[OF this] lt show ?case
    by (simp add: d upt_conv_Cons)
qed

lemma find_upt_Suc:
  "find P [0..<Suc m] = (if P 0 then Some 0 else map_option Suc (find (\<lambda>k. P (Suc k)) [0..<m]))"
proof -
  have "[0..<Suc m] = 0 # map Suc [0..<m]"
    by (simp add: upt_conv_Cons map_Suc_upt del: upt_Suc)
  then show ?thesis
    by (simp add: find_map_comp del: upt_Suc)
qed

lemma braceDepth_Cons:
  "braceDepth (x # xs) = (if x = CHR ''{'' then 1 else if x = CHR ''}'' then -1 else 0) + braceDepth xs"
  by (simp add: braceDepth_def)

lemma scanBraces_zero: "scanBraces s 0 pos = pos"
  by (cases s) simp_all

lemma scanBraces_find:
  "0 < n \<Longrightarrow>
   scanBraces s n pos =
     (case find (\<lambda>k. int n + braceDepth (take (Suc k) s) = 0) [0..<length s] of
        None \<Rightarrow> pos + length s
      | Some k \<Rightarrow> pos + Suc k)"
proof (induction s arbitrary: n pos)
  case Nil
  then show ?case by simp
next
  case (Cons x xs)
  let ?n' = "if x = CHR ''{'' then n + 1 else if x = CHR ''}'' then n - 1 else n"
  have step: "scanBraces (x # xs) n pos = scanBraces xs ?n' (pos + 1)"
    using Cons.prems by simp
  have d: "\<And>k. int n + braceDepth (take (Suc k) (x # xs)) =
                 int ?n' + (if k = 0 then 0 else braceDepth (take k xs))"
    using Cons.prems by (auto simp: braceDepth_Cons braceDepth_def)
  show ?case
  proof (cases "?n' = 0")
    case True
    then have "int n + braceDepth (take (Suc 0) (x # xs)) = 0"
      by (simp only: d) simp
    then show ?thesis
      unfolding step using True
      by (simp only: scanBraces_zero length_Cons find_upt_Suc) simp
  next
    case False
    then have pos': "0 < ?n'" by simp
    have nz: "int n + braceDepth (take (Suc 0) (x # xs)) \<noteq> 0"
      using False by (simp only: d) simp
    have sh: "\<And>k. (int n + braceDepth (take (Suc (Suc k)) (x # xs)) = 0) =
                   (int ?n' + braceDepth (take (Suc k) xs) = 0)"
      by (simp only: d) simp
    show ?thesis
      unfolding step Cons.IH[OF pos']
      by (simp only: length_Cons find_upt_Suc nz sh if_False)
         (simp split: option.splits)
  qed
qed


lemma find_upt_shift:
  "find P [a..<b] = map_option (\<lambda>k. k + a) (find (\<lambda>k. P (k + a)) [0..<b - a])"
proof -
  have "[a..<b] = map (\<lambda>k. k + a) [0..<b - a]"
    by (cases "a \<le> b") (simp_all add: map_add_upt)
  then show ?thesis
    by (simp only: find_map_comp)
qed

lemma slice_from_opn:
  assumes "opn < length code" and "code ! opn = CHR ''{''"
  shows "braceDepth (slice code opn (Suc (Suc (k + opn)))) =
         1 + braceDepth (take (Suc k) (drop (Suc opn) code))"
proof -
  have "drop opn code = CHR ''{'' # drop (Suc opn) code"
    using assms by (metis Cons_nth_drop_Suc)
  moreover have "Suc (Suc (k + opn)) - opn = Suc (Suc k)" by simp
  ultimately show ?thesis
    by (simp add: slice_def braceDepth_Cons)
qed

text \<open>
  C4. For every text and start offset, \<^verbatim>\<open>extractBlock\<close> returns the empty text when no
  opening brace occurs at or after the offset. Otherwise it returns the text from the offset
  through the first position after the opening brace at which the depth (plus one per
  opening brace, minus one per closing brace) is back at zero, that brace included, and
  through the end of the input when the depth never returns to zero. The function is total:
  it raises nothing.
\<close>

theorem extractBlock_refines_spec: "extractBlock code startOffset = blockSpec code startOffset"
proof (cases "find (\<lambda>i. code ! i = CHR ''{'') [startOffset..<length code]")
  case None
  then show ?thesis
    by (simp add: extractBlock_def blockSpec_def indexOf_def indexFrom_find)
next
  case (Some opn)
  then have op: "startOffset \<le> opn" "opn < length code" "code ! opn = CHR ''{''"
    by (auto simp: find_Some_iff)
  let ?rest = "drop (Suc opn) code"
  let ?rel = "find (\<lambda>k. int 1 + braceDepth (take (Suc k) ?rest) = 0) [0..<length ?rest]"
  have scan: "scanBraces ?rest 1 (Suc opn) =
                (case ?rel of None \<Rightarrow> Suc opn + length ?rest | Some k \<Rightarrow> Suc opn + Suc k)"
    by (rule scanBraces_find) simp
  have abs: "find (\<lambda>j. braceDepth (slice code opn (Suc j)) = 0) [Suc opn..<length code] =
             map_option (\<lambda>k. k + Suc opn) ?rel"
    by (subst find_upt_shift) (simp add: slice_from_opn[OF op(2,3)])
  show ?thesis
  proof (cases ?rel)
    case None
    with scan abs Some op show ?thesis
      by (simp add: extractBlock_def blockSpec_def indexOf_def indexFrom_find substring_def slice_def)
  next
    case (Some k)
    with scan abs \<open>find (\<lambda>i. code ! i = CHR ''{'') [startOffset..<length code] = Some opn\<close> op
    show ?thesis
      by (simp add: extractBlock_def blockSpec_def indexOf_def indexFrom_find substring_def slice_def
                    add.commute)
  qed
qed

lemma indexOf_None_iff: "indexOf code ch i = None \<longleftrightarrow> ch \<notin> set (drop i code)"
  by (auto simp: indexOf_def indexFrom_find find_None_iff set_conv_nth nth_drop
           intro: le_add1) 


text \<open>
  C3, as the source has it. For every text in which no opening brace occurs at or after the
  start index, \<^verbatim>\<open>extractBlock\<close> returns the empty text, not the remainder of the input.
\<close>

theorem extractBlock_no_brace:
  "CHR ''{'' \<notin> set (drop startIndex code) \<Longrightarrow> extractBlock code startIndex = []"
proof -
  assume "CHR ''{'' \<notin> set (drop startIndex code)"
  then have "indexOf code CHR ''{'' startIndex = None"
    by (simp add: indexOf_None_iff)
  then show ?thesis
    by (simp add: extractBlock_def)
qed

theorem extractBlock_no_brace_witness:
  "CHR ''{'' \<notin> set (drop 0 ''function f()'') \<and> extractBlock ''function f()'' 0 = []"
proof -
  have h: "CHR ''{'' \<notin> set (drop 0 ''function f()'')" by simp
  show ?thesis using h extractBlock_no_brace [OF h] by simp
qed

text \<open>
  The truncated declaration \<^verbatim>\<open>function f()\<close> holds no opening brace, and its block is
  not the remainder of the input.
\<close>

theorem extractBlock_remainder_counterexample:
  "CHR ''{'' \<notin> set (drop 0 ''function f()'') \<and>
   extractBlock ''function f()'' 0 \<noteq> drop 0 ''function f()''"
  by code_simp

section \<open>Properties of the component lists\<close>

text \<open>
  C9. For every code text and any two language labels, \<^verbatim>\<open>extractComponents\<close> returns
  the same result: the label is never consulted. So a function written with \<^verbatim>\<open>def\<close> is
  in the function list under no label.
\<close>

theorem extractComponents_ignores_language:
  "extractComponents code language1 = extractComponents code language2 \<and>
   extractComponents ''def area(r):\<newline>    return r * r'' language1 = Inr ([], [])"
proof
  show "extractComponents code language1 = extractComponents code language2"
    by (simp add: extractComponents_def)
next
  have "extractComponents ''def area(r):\<newline>    return r * r'' language1 =
        extractComponents ''def area(r):\<newline>    return r * r'' []"
    by (simp add: extractComponents_def)
  also have "\<dots> = Inr ([], [])"
    by code_simp
  finally show "extractComponents ''def area(r):\<newline>    return r * r'' language1 = Inr ([], [])" .
qed

section \<open>Properties of the report\<close>

text \<open>
  C7. For the empty text and the label \<^verbatim>\<open>python\<close>: the diagram is the header followed by
  the generic Implementation box, the functionality text is the generic utility sentence,
  the class list and the function list are empty, and the report holds these parts.
\<close>

theorem explain_empty_python:
  "generateArchitectureDiagram [] ''python'' =
     Inr (''+----------------------+\<newline>'' @
          ''|    Code Structure    |\<newline>'' @
          ''+----------------------+\<newline>'' @
          ''\<newline>    +------------------+\<newline>'' @
          ''    |  Implementation  |\<newline>'' @
          ''    +------------------+\<newline>'') \<and>
   extractCoreFunctionality [] ''python'' =
     ''This code appears to provide general utility functions or core logic for the application.'' \<and>
   extractComponents [] ''python'' = Inr ([], []) \<and>
   explainCode [] ''python'' =
     Inr (''\<newline>  # Code Analysis for python Code\<newline>'' @
          ''  \<newline>'' @
          ''  ## Architecture Diagram\<newline>'' @
          ''  '' @ fence @ ''\<newline>'' @
          ''  +----------------------+\<newline>'' @
          ''|    Code Structure    |\<newline>'' @
          ''+----------------------+\<newline>'' @
          ''\<newline>    +------------------+\<newline>'' @
          ''    |  Implementation  |\<newline>'' @
          ''    +------------------+\<newline>'' @
          ''\<newline>'' @
          ''  '' @ fence @ ''\<newline>'' @
          ''  \<newline>'' @
          ''  ## Core Functionality\<newline>'' @
          ''  This code appears to provide general utility functions or core logic for the application.'' @
          ''\<newline>'' @
          ''  \<newline>'' @
          ''  ## Main Classes:\<newline>'' @
          ''  \<newline>'' @
          ''  \<newline>'' @
          ''  ## Main Functions:\<newline>'' @
          ''  \<newline>'' @
          ''  \<newline>'' @
          ''  Would you like me to explain all the functions and classes in detail? '' @
          ''Or are you more interested in a specific part?\<newline>'' @
          ''  '')"
  by code_simp

section \<open>Totality of the analysis\<close>

lemma wellFormed_patterns:
  "wellFormed jsPatterns" "wellFormed pythonPatterns" "wellFormed javaPatterns"
  "wellFormed genericPatterns"
  by code_simp+

lemma wellFormed_select: "wellFormed (selectPatterns label)"
  by (simp add: selectPatterns_def wellFormed_patterns)

lemma extractClasses_total:
  assumes "wellFormed ps"
  shows "\<exists>classes. extractClasses ps code = Inr classes \<and> (\<forall>c \<in> set classes. cls_name c \<noteq> None)"
  unfolding extractClasses_def
proof (rule execFold_rule)
  show "\<not> nullable (expr (classRegex ps))"
    using assms by (simp add: wellFormed_def)
next
  fix m j and a :: "ClassInfo list"
  assume ex: "exec (classRegex ps) code j = Some m" and inv: "\<forall>c \<in> set a. cls_name c \<noteq> None"
  from assms have "binds 1 (expr (classRegex ps))"
    by (simp add: wellFormed_def)
  from exec_Some(4)[OF ex this] have "cls_name (classInfo m) \<noteq> None"
    by (simp add: classInfo_def)
  with inv show "\<exists>a'. Inr (a @ [classInfo m]) = Inr a' \<and> (\<forall>c \<in> set a'. cls_name c \<noteq> None)"
    by auto
qed simp

lemma extractFunctions_total:
  assumes "wellFormed ps"
  shows "\<exists>functions. extractFunctions ps code classes = Inr functions"
proof -
  have "\<exists>r. execFold (functionRegex ps) code
               (\<lambda>m functions. Inr (functionStep code classes m functions)) 0 [] = Inr r \<and> True"
    by (rule execFold_rule) (use assms in \<open>simp_all add: wellFormed_def\<close>)
  then show ?thesis
    by (simp add: extractFunctions_def)
qed

lemma extractImports_total:
  assumes "wellFormed ps"
  shows "\<exists>imports. extractImports ps code = Inr imports"
proof -
  have "\<exists>r. execFold (importRegex ps) code (\<lambda>m imports. Inr (imports @ [importName m])) 0 [] = Inr r \<and> True"
    by (rule execFold_rule) (use assms in \<open>simp_all add: wellFormed_def\<close>)
  then show ?thesis
    by (simp add: extractImports_def)
qed

lemma renderChildren_total:
  "\<forall>c \<in> set cs. cls_name c \<noteq> None \<Longrightarrow> \<exists>t. renderChildren cs = Inr t"
  by (induction cs) (auto simp: childBox_def)

lemma renderParents_total:
  "\<forall>c \<in> set classes. cls_name c \<noteq> None \<Longrightarrow> set ps \<subseteq> set classes \<Longrightarrow>
   \<exists>t. renderParents classes ps = Inr t"
proof (induction ps)
  case Nil
  then show ?case by simp
next
  case (Cons cls rest)
  from Cons.prems obtain n where n: "cls_name cls = Some n" by auto
  have "\<forall>c \<in> set (filter (\<lambda>c. strictEq (cls_parent c) (cls_name cls)) classes). cls_name c \<noteq> None"
    using Cons.prems(1) by simp
  from renderChildren_total[OF this] obtain ch where
    ch: "renderChildren (filter (\<lambda>c. strictEq (cls_parent c) (cls_name cls)) classes) = Inr ch" ..
  from Cons.IH Cons.prems obtain r where r: "renderParents classes rest = Inr r" by auto
  from n ch r show ?case
    by (simp add: classBox_def)
qed

lemma renderStandalone_total:
  "\<forall>c \<in> set cs. cls_name c \<noteq> None \<Longrightarrow> \<exists>t. renderStandalone cs = Inr t"
  by (induction cs) (auto simp: classBox_def)

lemma renderClasses_total:
  assumes "\<forall>c \<in> set classes. cls_name c \<noteq> None"
  shows "\<exists>t. renderClasses classes = Inr t"
proof -
  from renderParents_total[OF assms, of "parentClasses classes"]
  obtain ps where ps: "renderParents classes (parentClasses classes) = Inr ps"
    by (auto simp: parentClasses_def)
  have "\<forall>c \<in> set (standaloneClasses classes). cls_name c \<noteq> None"
    using assms by (simp add: standaloneClasses_def)
  from renderStandalone_total[OF this]
  obtain ss where ss: "renderStandalone (standaloneClasses classes) = Inr ss" ..
  from ps ss show ?thesis
    by (simp add: renderClasses_def)
qed

lemma generateArchitectureDiagram_total:
  "\<exists>d. generateArchitectureDiagram code programming_language = Inr d"
proof -
  let ?ps = "selectPatterns (toLowerCase programming_language)"
  have wf: "wellFormed ?ps" by (rule wellFormed_select)
  from extractClasses_total[OF wf] obtain classes where
    cl: "extractClasses ?ps code = Inr classes" "\<forall>c \<in> set classes. cls_name c \<noteq> None" by blast
  from extractFunctions_total[OF wf] obtain funs where
    fn: "extractFunctions ?ps code classes = Inr funs" by blast
  from extractImports_total[OF wf] obtain imps where
    im: "extractImports ?ps code = Inr imps" by blast
  from renderClasses_total[OF cl(2)] obtain t where t: "renderClasses classes = Inr t" ..
  from cl(1) fn im t show ?thesis
    by (simp add: generateArchitectureDiagram_def renderDiagram_def)
qed

lemma sublist_in_left: "sublist h a \<Longrightarrow> sublist h (a @ b)"
  by (auto simp: sublist_def) (metis append.assoc)

lemma sublist_in_right: "sublist h b \<Longrightarrow> sublist h (a @ b)"
  by (auto simp: sublist_def) (metis append.assoc)

lemma match1_binds:
  "match1 p s = Some m \<Longrightarrow> binds n (expr p) \<Longrightarrow> capture (groups m) n \<noteq> None"
  using search_Some[of p s 0 m n] by (simp add: match1_def)

lemma fromRegex_total:
  assumes "binds 1 (expr r)"
  shows "\<exists>d. fromRegex r componentCode = Inr d"
proof (cases "match1 r componentCode")
  case None
  then show ?thesis by (simp add: fromRegex_def)
next
  case (Some m)
  from match1_binds[OF Some assms] obtain c where "capture (groups m) 1 = Some c" by auto
  with Some show ?thesis
    by (simp add: fromRegex_def Let_def)
qed

lemma comment_regex_binds: "binds 1 (expr docstringRegex)" "binds 1 (expr jsdocRegex)"
  by code_simp+

lemma commentDescription_total: "\<exists>d. commentDescription componentCode = Inr d"
  using fromRegex_total[OF comment_regex_binds(1)] fromRegex_total[OF comment_regex_binds(2)]
  by (simp add: commentDescription_def Let_def)

lemma generateComponentDescription_total:
  "\<exists>d. generateComponentDescription componentCode type = Inr d"
proof -
  from commentDescription_total obtain d where "commentDescription componentCode = Inr d" ..
  then show ?thesis
    by (cases d) (simp_all add: generateComponentDescription_def)
qed

lemma componentStep_total: "\<exists>a'. componentStep code type m a = Inr a' \<and> True"
  using generateComponentDescription_total[of "extractBlock code (index m)" type]
  by (auto simp: componentStep_def)

lemma component_regex_progress:
  "\<not> nullable (expr classNameRegex)"
  "\<not> nullable (expr (rx (seqs [str ''function'', Plus (Cls Space), Group 1 (Plus (Cls Word))])))"
  "\<not> nullable (expr arrowFunctionRegex)"
  by code_simp+

lemma extractComponents_total:
  "\<exists>mainClasses mainFunctions. extractComponents code programming_language = Inr (mainClasses, mainFunctions)"
proof -
  have "\<exists>r. execFold classNameRegex code (componentStep code ''class'') 0 [] = Inr r \<and> True"
    by (rule execFold_rule[OF component_regex_progress(1)]) (rule componentStep_total, simp)
  then obtain mc where mc: "execFold classNameRegex code (componentStep code ''class'') 0 [] = Inr mc"
    by blast
  have "\<exists>r. execFold (rx (seqs [str ''function'', Plus (Cls Space), Group 1 (Plus (Cls Word))]))
               code (componentStep code ''function'') 0 [] = Inr r \<and> True"
    by (rule execFold_rule[OF component_regex_progress(2)]) (rule componentStep_total, simp)
  then obtain f1 where f1: "execFold (rx (seqs [str ''function'', Plus (Cls Space), Group 1 (Plus (Cls Word))]))
               code (componentStep code ''function'') 0 [] = Inr f1"
    by blast
  have "\<exists>r. execFold arrowFunctionRegex code (componentStep code ''function'') 0 f1 = Inr r \<and> True"
    by (rule execFold_rule[OF component_regex_progress(3)]) (rule componentStep_total, simp)
  then obtain mf where mf: "execFold arrowFunctionRegex code (componentStep code ''function'') 0 f1 = Inr mf"
    by blast
  from mc f1 mf show ?thesis
    by (simp add: extractComponents_def)
qed

lemma report_headers:
  "sublist ''Architecture Diagram'' (report l d c mc mf)"
  "sublist ''Core Functionality'' (report l d c mc mf)"
  "sublist ''Main Classes:'' (report l d c mc mf)"
  "sublist ''Main Functions:'' (report l d c mc mf)"
proof -
  have b1: "sublist ''Architecture Diagram'' ''  ## Architecture Diagram\<newline>''"
    by code_simp
  have b2: "sublist ''Core Functionality'' ''  ## Core Functionality\<newline>''"
    by code_simp
  have b3: "sublist ''Main Classes:'' ''  ## Main Classes:\<newline>''"
    by code_simp
  have b4: "sublist ''Main Functions:'' ''  ## Main Functions:\<newline>''"
    by code_simp
  show "sublist ''Architecture Diagram'' (report l d c mc mf)"
    unfolding report_def by (intro sublist_in_right sublist_in_left[OF b1])
  show "sublist ''Core Functionality'' (report l d c mc mf)"
    unfolding report_def by (intro sublist_in_right sublist_in_left[OF b2])
  show "sublist ''Main Classes:'' (report l d c mc mf)"
    unfolding report_def by (intro sublist_in_right sublist_in_left[OF b3])
  show "sublist ''Main Functions:'' (report l d c mc mf)"
    unfolding report_def by (intro sublist_in_right sublist_in_left[OF b4])
qed

text \<open>
  C1. For every code text and every language label, \<^verbatim>\<open>explainCode\<close> returns: it raises
  nothing and none of its loops runs for ever. The report is not empty and contains the
  section headers Architecture Diagram, Core Functionality, Main Classes: and Main Functions:.
\<close>

theorem explainCode_total:
  "\<exists>r. explainCode code programming_language = Inr r \<and> r \<noteq> [] \<and>
       sublist ''Architecture Diagram'' r \<and> sublist ''Core Functionality'' r \<and>
       sublist ''Main Classes:'' r \<and> sublist ''Main Functions:'' r"
proof -
  from generateArchitectureDiagram_total obtain d where
    d: "generateArchitectureDiagram code programming_language = Inr d" ..
  from extractComponents_total obtain mc mf where
    c: "extractComponents code programming_language = Inr (mc, mf)" by blast
  let ?r = "report programming_language d (extractCoreFunctionality code programming_language) mc mf"
  from d c have e: "explainCode code programming_language = Inr ?r"
    by (simp add: explainCode_def)
  have ne: "?r \<noteq> []"
    by (simp add: report_def)
  show ?thesis
    by (intro exI[of _ ?r] conjI e ne report_headers)
qed


section \<open>Properties of the class rendering\<close>

lemma renderStandalone_contains:
  "renderStandalone cs = Inr t \<Longrightarrow> c \<in> set cs \<Longrightarrow> cls_name c = Some n \<Longrightarrow> sublist (box n) t"
proof (induction cs arbitrary: t)
  case Nil
  then show ?case by simp
next
  case (Cons a rest)
  from Cons.prems(1) obtain b r where b: "classBox (cls_name a) = Inr b"
    and r: "renderStandalone rest = Inr r" and t: "t = b @ r"
    by (auto split: sum.splits)
  show ?case
  proof (cases "c = a")
    case True
    with b Cons.prems(3) have "b = box n" by (simp add: classBox_def)
    with t show ?thesis by simp
  next
    case False
    with Cons.prems(2) have "c \<in> set rest" by simp
    from Cons.IH[OF r this Cons.prems(3)] t show ?thesis
      by (simp add: sublist_in_right)
  qed
qed

lemma renderParents_contains:
  "renderParents classes ps = Inr t \<Longrightarrow> c \<in> set ps \<Longrightarrow> cls_name c = Some n \<Longrightarrow> sublist (box n) t"
proof (induction ps arbitrary: t)
  case Nil
  then show ?case by simp
next
  case (Cons a rest)
  from Cons.prems(1) obtain b ch r where b: "classBox (cls_name a) = Inr b"
    and r: "renderParents classes rest = Inr r" and t: "t = b @ ch @ ''\<newline>'' @ r"
    by (auto split: sum.splits)
  show ?case
  proof (cases "c = a")
    case True
    with b Cons.prems(3) have "b = box n" by (simp add: classBox_def)
    with t show ?thesis by simp
  next
    case False
    with Cons.prems(2) have "c \<in> set rest" by simp
    from Cons.IH[OF r this Cons.prems(3)] have "sublist (box n) r" .
    then have "sublist (box n) (b @ ch @ ''\<newline>'' @ r)"
      by (intro sublist_in_right)
    then show ?thesis
      by (simp only: t)
  qed
qed

text \<open>
  C10. For every code text and label, let \<open>classes\<close> be the classes that the diagram
  generator extracts. Every class among them that has no parent and that no extracted class
  names as its parent has its box in the output of the parent-classes pass and again in the
  output of the standalone-classes pass, and the diagram holds the two outputs one after
  the other. The box is three lines: a rule, the name padded with spaces to fourteen code
  units between bars, and a rule.
\<close>

theorem standalone_class_box_twice:
  assumes ex: "extractClasses (selectPatterns (toLowerCase programming_language)) code = Inr classes"
    and mem: "cls \<in> set classes"
    and nopar: "\<not> truthy (cls_parent cls)"
    and nochild: "\<not> list_ex (\<lambda>other. strictEq (cls_parent other) (cls_name cls)) classes"
  shows "\<exists>n ps ss pre post.
           cls_name cls = Some n \<and>
           renderParents classes (parentClasses classes) = Inr ps \<and>
           sublist (''    +------------------+\<newline>'' @
                    ''    |  '' @ n @ replicate (14 - length n) CHR '' '' @ ''  |\<newline>'' @
                    ''    +------------------+\<newline>'') ps \<and>
           renderStandalone (standaloneClasses classes) = Inr ss \<and>
           sublist (''    +------------------+\<newline>'' @
                    ''    |  '' @ n @ replicate (14 - length n) CHR '' '' @ ''  |\<newline>'' @
                    ''    +------------------+\<newline>'') ss \<and>
           generateArchitectureDiagram code programming_language = Inr (pre @ ps @ ss @ post)"
proof -
  have box_text: "\<And>n. box n = ''    +------------------+\<newline>'' @
                    ''    |  '' @ n @ replicate (14 - length n) CHR '' '' @ ''  |\<newline>'' @
                    ''    +------------------+\<newline>''"
    by (simp add: box_def padEnd_def)
  let ?ps = "selectPatterns (toLowerCase programming_language)"
  have wf: "wellFormed ?ps" by (rule wellFormed_select)
  from extractClasses_total[OF wf, of code] ex
  have names: "\<forall>c \<in> set classes. cls_name c \<noteq> None" by simp
  with mem obtain n where n: "cls_name cls = Some n" by auto
  from extractFunctions_total[OF wf] obtain funs where
    fn: "extractFunctions ?ps code classes = Inr funs" by blast
  from extractImports_total[OF wf] obtain imps where
    im: "extractImports ?ps code = Inr imps" by blast
  from renderParents_total[OF names, of "parentClasses classes"]
  obtain ps where ps: "renderParents classes (parentClasses classes) = Inr ps"
    by (auto simp: parentClasses_def)
  have "\<forall>c \<in> set (standaloneClasses classes). cls_name c \<noteq> None"
    using names by (simp add: standaloneClasses_def)
  from renderStandalone_total[OF this]
  obtain ss where ss: "renderStandalone (standaloneClasses classes) = Inr ss" ..
  from mem nopar have inp: "cls \<in> set (parentClasses classes)"
    by (simp add: parentClasses_def)
  from mem nopar nochild have ins: "cls \<in> set (standaloneClasses classes)"
    by (simp add: standaloneClasses_def)
  from mem have ne: "0 < length classes" by (cases classes) auto
  let ?pre = "diagramHeader @ renderDependencies imps @ ''\<newline>    Classes:\<newline>''"
  let ?post = "renderFunctions funs (analyzeRelationships code classes funs) @ renderFallback classes funs"
  from ex fn im ps ss ne
  have d: "generateArchitectureDiagram code programming_language = Inr (?pre @ ps @ ss @ ?post)"
    by (simp add: generateArchitectureDiagram_def renderDiagram_def renderClasses_def)
  show ?thesis
    by (intro exI[of _ n] exI[of _ ps] exI[of _ ss] exI[of _ ?pre] exI[of _ ?post] conjI
          n ps ss d renderParents_contains[OF ps inp n, unfolded box_text]
          renderStandalone_contains[OF ss ins n, unfolded box_text])
qed

theorem standalone_class_box_twice_witness:
  "extractClasses (selectPatterns (toLowerCase ''js'')) ''class A {}'' = Inr [\<lparr>cls_name = Some ''A'', cls_parent = None, cls_index = 0\<rparr>] \<and>
   \<lparr>cls_name = Some ''A'', cls_parent = None, cls_index = 0\<rparr> \<in> set [\<lparr>cls_name = Some ''A'', cls_parent = None, cls_index = 0\<rparr>] \<and>
   \<not> truthy (cls_parent \<lparr>cls_name = Some ''A'', cls_parent = None, cls_index = 0\<rparr>) \<and>
   \<not> list_ex (\<lambda>other. strictEq (cls_parent other) (cls_name \<lparr>cls_name = Some ''A'', cls_parent = None, cls_index = 0\<rparr>)) [\<lparr>cls_name = Some ''A'', cls_parent = None, cls_index = 0\<rparr>] \<and>
   (\<exists>n ps ss pre post.
      cls_name \<lparr>cls_name = Some ''A'', cls_parent = None, cls_index = 0\<rparr> = Some n \<and>
      renderParents [\<lparr>cls_name = Some ''A'', cls_parent = None, cls_index = 0\<rparr>] (parentClasses [\<lparr>cls_name = Some ''A'', cls_parent = None, cls_index = 0\<rparr>]) = Inr ps \<and>
      sublist (''    +------------------+\<newline>'' @
               ''    |  '' @ n @ replicate (14 - length n) CHR '' '' @ ''  |\<newline>'' @
               ''    +------------------+\<newline>'') ps \<and>
      renderStandalone (standaloneClasses [\<lparr>cls_name = Some ''A'', cls_parent = None, cls_index = 0\<rparr>]) = Inr ss \<and>
      sublist (''    +------------------+\<newline>'' @
               ''    |  '' @ n @ replicate (14 - length n) CHR '' '' @ ''  |\<newline>'' @
               ''    +------------------+\<newline>'') ss \<and>
      generateArchitectureDiagram ''class A {}'' ''js'' = Inr (pre @ ps @ ss @ post)) \<and>
   generateArchitectureDiagram ''class A {}'' ''js'' =
     Inr (''+----------------------+\<newline>'' @
          ''|    Code Structure    |\<newline>'' @
          ''+----------------------+\<newline>'' @
          ''\<newline>    Classes:\<newline>'' @
          ''    +------------------+\<newline>'' @
          ''    |  A               |\<newline>'' @
          ''    +------------------+\<newline>'' @
          ''\<newline>'' @
          ''    +------------------+\<newline>'' @
          ''    |  A               |\<newline>'' @
          ''    +------------------+\<newline>'')"
proof -
  let ?A = "\<lparr>cls_name = Some ''A'', cls_parent = None, cls_index = 0\<rparr>"
  have h1: "extractClasses (selectPatterns (toLowerCase ''js'')) ''class A {}'' = Inr [?A]"
    by code_simp
  have h2: "?A \<in> set [?A]" by simp
  have h3: "\<not> truthy (cls_parent ?A)" by (simp add: truthy_def)
  have h4: "\<not> list_ex (\<lambda>other. strictEq (cls_parent other) (cls_name ?A)) [?A]"
    by (simp add: strictEq_def)
  have h5: "generateArchitectureDiagram ''class A {}'' ''js'' =
     Inr (''+----------------------+\<newline>'' @
          ''|    Code Structure    |\<newline>'' @
          ''+----------------------+\<newline>'' @
          ''\<newline>    Classes:\<newline>'' @
          ''    +------------------+\<newline>'' @
          ''    |  A               |\<newline>'' @
          ''    +------------------+\<newline>'' @
          ''\<newline>'' @
          ''    +------------------+\<newline>'' @
          ''    |  A               |\<newline>'' @
          ''    +------------------+\<newline>'')"
    by code_simp
  show ?thesis
    by (intro conjI h1 h2 h3 h4 h5 standalone_class_box_twice [OF h1 h2 h3 h4])
qed

section \<open>Properties of the function filter\<close>































section \<open>Properties of the functionality summary\<close>








lemma at_0_None: "at xs 0 = None \<Longrightarrow> at xs 1 = None"
  by (auto simp: at_def split: if_splits)




































section \<open>Documentation comments\<close>

text \<open>
  C2. A function declaration that directly follows the block comment
  \<^verbatim>\<open>/** Computes the sum */\<close>: the block handed to the description starts at the keyword
  \<^verbatim>\<open>function\<close>, so the comment is not part of it and the description is the heuristic one.
\<close>

theorem leading_comment_not_recovered:
  "extractComponents ''/** Computes the sum */\<newline>function add(a, b) { return a + b; }'' ''javascript'' =
     Inr ([], [\<lparr>comp_name = Some ''add'',
                description = ''Add - Processes input parameters and returns a result''\<rparr>])"
  by code_simp

text \<open>The same comment inside the braces of the function is recovered.\<close>

lemma inner_comment_recovered:
  "extractComponents ''function add(a, b) { /** Computes the sum */ return a + b; }'' ''javascript'' =
     Inr ([], [\<lparr>comp_name = Some ''add'', description = ''Computes the sum''\<rparr>])"
  by code_simp

end
